theory Spec2Isabelle
  imports Complex_Main
begin

section \<open>JavaScript values as the route handlers see them\<close>

text \<open>
  The request body is the object produced by the JSON body parser. A property read
  such as \<^verbatim>\<open>req.body.username\<close> yields either a JSON value or \<^verbatim>\<open>undefined\<close>
  (the property is absent); \<^verbatim>\<open>undefined\<close> is \<open>None\<close> here.
\<close>

datatype json =
    JNull
  | JBool bool
  | JNum real
  | JStr string
  | JArr "json list"
  | JObj "(string \<times> json) list"

type_synonym jsval = "json option"

type_synonym jsobject = "string \<rightharpoonup> json"

text \<open>
  The operand test of \<^verbatim>\<open>!x\<close> and \<^verbatim>\<open>if (x)\<close>: \<^verbatim>\<open>null\<close>, \<^verbatim>\<open>false\<close>, \<^verbatim>\<open>0\<close>
  and the empty string are falsy, every array and every object is truthy, also the empty
  ones.
\<close>

fun truthy :: "json \<Rightarrow> bool" where
  "truthy JNull = False"
| "truthy (JBool b) = b"
| "truthy (JNum n) = (n \<noteq> 0)"
| "truthy (JStr s) = (s \<noteq> [])"
| "truthy (JArr xs) = True"
| "truthy (JObj kvs) = True"

fun js_truthy :: "jsval \<Rightarrow> bool" where
  "js_truthy None = False"
| "js_truthy (Some v) = truthy v"

record request =
  params_id :: string
  body :: jsobject

section \<open>Responses\<close>

text \<open>
  A response is the status code given to \<^verbatim>\<open>res.status\<close> and the object given to
  \<^verbatim>\<open>json\<close>. Each constructor of the payload is one of the envelopes the routes send;
  \<open>'u\<close> is the store's representation of a user and \<open>'e\<close> the type of thrown values.
\<close>

datatype ('u, 'e) payload =
    MsgBody string
  | ErrorBody string
  | AllUsersBody nat "'u list"
  | UserBody 'u
  | NewUserBody "'u option"
  | UpdateUserBody "'u option"
  | CaughtBody 'e

record ('u, 'e) response =
  status :: nat
  payload :: "('u, 'e) payload"

abbreviation OK :: nat where "OK \<equiv> 200"
abbreviation CREATED :: nat where "CREATED \<equiv> 201"
abbreviation BAD_REQUEST :: nat where "BAD_REQUEST \<equiv> 400"
abbreviation NOT_FOUND :: nat where "NOT_FOUND \<equiv> 404"
abbreviation INTERNAL_SERVER_ERROR :: nat where "INTERNAL_SERVER_ERROR \<equiv> 500"

section \<open>The database module as a parameter of the routes\<close>

text \<open>
  The routes call seven functions of the module \<^verbatim>\<open>./user.database\<close>. Each call may
  throw (\<open>Inl\<close>) or return (\<open>Inr\<close>) and may change the store, so an operation maps the
  store to an outcome and the store afterwards. A result that the routes test with
  \<^verbatim>\<open>!x\<close> is an option: \<open>None\<close> is \<^verbatim>\<open>null\<close> or \<^verbatim>\<open>undefined\<close>, \<open>Some\<close> an object or an
  array, which is truthy.
\<close>

type_synonym ('s, 'e, 'a) store_op = "'s \<Rightarrow> ('e + 'a) \<times> 's"

datatype removal = Removed | Absent

record ('s, 'u, 'e) database =
  findAll :: "('s, 'e, 'u list option) store_op"
  findOne :: "string \<Rightarrow> ('s, 'e, 'u option) store_op"
  findByEmail :: "jsval \<Rightarrow> ('s, 'e, 'u option) store_op"
  create :: "jsobject \<Rightarrow> ('s, 'e, 'u option) store_op"
  update :: "string \<Rightarrow> jsobject \<Rightarrow> ('s, 'e, 'u option) store_op"
  remove :: "string \<Rightarrow> ('s, 'e, removal) store_op"
  comparePassword :: "jsval \<Rightarrow> jsval \<Rightarrow> ('s, 'e, bool) store_op"

text \<open>
  \<open>await\<close> sequences a store call with the rest of the \<^verbatim>\<open>try\<close> block: a thrown
  value skips the rest. \<open>respond\<close> is \<^verbatim>\<open>return res.status(..).json(..)\<close>, and
  \<open>try_catch\<close> is the \<^verbatim>\<open>catch\<close> clause every route has, which answers 500 with the
  caught value.
\<close>

definition await ::
  "('s, 'e, 'a) store_op \<Rightarrow> ('a \<Rightarrow> ('s, 'e, 'b) store_op) \<Rightarrow> ('s, 'e, 'b) store_op" where
  "await m k = (\<lambda>s. case m s of
      (Inl e, s') \<Rightarrow> (Inl e, s')
    | (Inr a, s') \<Rightarrow> k a s')"

definition respond :: "'r \<Rightarrow> ('s, 'e, 'r) store_op" where
  "respond r = (\<lambda>s. (Inr r, s))"

definition try_catch ::
  "('s, 'e, ('u, 'e) response) store_op \<Rightarrow> nat \<Rightarrow> 's \<Rightarrow> ('u, 'e) response \<times> 's" where
  "try_catch m code = (\<lambda>s. case m s of
      (Inl error, s') \<Rightarrow> (\<lparr>status = code, payload = CaughtBody error\<rparr>, s')
    | (Inr r, s') \<Rightarrow> (r, s'))"

section \<open>The user routes\<close>

definition get_users ::
  "('s, 'u, 'e) database \<Rightarrow> request \<Rightarrow> 's \<Rightarrow> ('u, 'e) response \<times> 's" where
  "get_users database req =
     try_catch
       (await (findAll database) (\<lambda>allUsers.
          case allUsers of
            None \<Rightarrow> respond \<lparr>status = NOT_FOUND, payload = MsgBody ''No users at this time..''\<rparr>
          | Some users \<Rightarrow>
              respond \<lparr>status = OK, payload = AllUsersBody (length users) users\<rparr>))
       INTERNAL_SERVER_ERROR"

definition get_user ::
  "('s, 'u, 'e) database \<Rightarrow> request \<Rightarrow> 's \<Rightarrow> ('u, 'e) response \<times> 's" where
  "get_user database req =
     try_catch
       (await (findOne database (params_id req)) (\<lambda>user.
          case user of
            None \<Rightarrow> respond \<lparr>status = NOT_FOUND, payload = ErrorBody ''User not found!''\<rparr>
          | Some u \<Rightarrow> respond \<lparr>status = OK, payload = UserBody u\<rparr>))
       INTERNAL_SERVER_ERROR"

definition post_register ::
  "('s, 'u, 'e) database \<Rightarrow> request \<Rightarrow> 's \<Rightarrow> ('u, 'e) response \<times> 's" where
  "post_register database req =
     try_catch
       (let username = body req ''username'';
            email = body req ''email'';
            password = body req ''password''
        in if \<not> js_truthy username \<or> \<not> js_truthy email \<or> \<not> js_truthy password
           then respond \<lparr>status = BAD_REQUEST,
                          payload = ErrorBody ''Please provide all the required parameters..''\<rparr>
           else await (findByEmail database email) (\<lambda>user.
             case user of
               Some u \<Rightarrow> respond \<lparr>status = BAD_REQUEST,
                                   payload = ErrorBody ''This email has already been registered..''\<rparr>
             | None \<Rightarrow> await (create database (body req)) (\<lambda>newUser.
                 respond \<lparr>status = CREATED, payload = NewUserBody newUser\<rparr>)))
       INTERNAL_SERVER_ERROR"

definition post_login ::
  "('s, 'u, 'e) database \<Rightarrow> request \<Rightarrow> 's \<Rightarrow> ('u, 'e) response \<times> 's" where
  "post_login database req =
     try_catch
       (let email = body req ''email'';
            password = body req ''password''
        in if \<not> js_truthy email \<or> \<not> js_truthy password
           then respond \<lparr>status = BAD_REQUEST,
                          payload = ErrorBody ''Please provide all the required parameters..''\<rparr>
           else await (findByEmail database email) (\<lambda>user.
             case user of
               None \<Rightarrow> respond \<lparr>status = NOT_FOUND,
                                payload = ErrorBody ''No user exists with the email provided..''\<rparr>
             | Some u \<Rightarrow> await (comparePassword database email password) (\<lambda>comparePassword.
                 if \<not> comparePassword
                 then respond \<lparr>status = BAD_REQUEST, payload = ErrorBody ''Incorrect Password!''\<rparr>
                 else respond \<lparr>status = OK, payload = UserBody u\<rparr>)))
       INTERNAL_SERVER_ERROR"

text \<open>
  The update route reads the user before it tests the fields, and writes its status codes
  as numbers. Its \<^verbatim>\<open>catch\<close> clause also prints the caught value, which no response shows.
\<close>

definition put_user ::
  "('s, 'u, 'e) database \<Rightarrow> request \<Rightarrow> 's \<Rightarrow> ('u, 'e) response \<times> 's" where
  "put_user database req =
     try_catch
       (let username = body req ''username'';
            email = body req ''email'';
            password = body req ''password''
        in await (findOne database (params_id req)) (\<lambda>getUser.
             if \<not> js_truthy username \<or> \<not> js_truthy email \<or> \<not> js_truthy password
             then respond \<lparr>status = 401,
                            payload = ErrorBody ''Please provide all the required parameters..''\<rparr>
             else case getUser of
               None \<Rightarrow> respond \<lparr>status = 404,
                                payload = ErrorBody (''No user with id '' @ params_id req)\<rparr>
             | Some u \<Rightarrow> await (update database (params_id req) (body req)) (\<lambda>updateUser.
                 respond \<lparr>status = 201, payload = UpdateUserBody updateUser\<rparr>)))
       500"

definition delete_user ::
  "('s, 'u, 'e) database \<Rightarrow> request \<Rightarrow> 's \<Rightarrow> ('u, 'e) response \<times> 's" where
  "delete_user database req =
     try_catch
       (let id = params_id req
        in await (findOne database id) (\<lambda>user.
             case user of
               None \<Rightarrow> respond \<lparr>status = NOT_FOUND, payload = ErrorBody ''User does not exist''\<rparr>
             | Some u \<Rightarrow> await (remove database id) (\<lambda>r.
                 respond \<lparr>status = OK, payload = MsgBody ''User deleted''\<rparr>)))
       INTERNAL_SERVER_ERROR"

section \<open>Observing which store operations a route invokes\<close>

text \<open>
  The routes are parametric in the store, so they can be run on a store that records every
  call next to the real one: which operation, with which arguments, and the value it
  threw, if it threw. The record of calls is the second component of the state.
\<close>

datatype call =
    FindAll
  | FindOne string
  | FindByEmail jsval
  | Create jsobject
  | Update string jsobject
  | Remove string
  | ComparePassword jsval jsval

type_synonym 'e entry = "call \<times> 'e option"

definition logged ::
  "call \<Rightarrow> ('s, 'e, 'a) store_op \<Rightarrow> ('s \<times> 'e entry list, 'e, 'a) store_op" where
  "logged c f = (\<lambda>(s, calls). case f s of
      (Inl e, s') \<Rightarrow> (Inl e, (s', calls @ [(c, Some e)]))
    | (Inr a, s') \<Rightarrow> (Inr a, (s', calls @ [(c, None)])))"

definition traced :: "('s, 'u, 'e) database \<Rightarrow> ('s \<times> 'e entry list, 'u, 'e) database" where
  "traced db =
     \<lparr>findAll = logged FindAll (findAll db),
      findOne = (\<lambda>i. logged (FindOne i) (findOne db i)),
      findByEmail = (\<lambda>e. logged (FindByEmail e) (findByEmail db e)),
      create = (\<lambda>b. logged (Create b) (create db b)),
      update = (\<lambda>i b. logged (Update i b) (update db i b)),
      remove = (\<lambda>i. logged (Remove i) (remove db i)),
      comparePassword = (\<lambda>e p. logged (ComparePassword e p) (comparePassword db e p))\<rparr>"

text \<open>
  \<open>run route db req s\<close> is the response of the route, the store afterwards and the calls
  it made, in order.
\<close>

definition run ::
  "(('s \<times> 'e entry list, 'u, 'e) database \<Rightarrow> request \<Rightarrow> 's \<times> 'e entry list
      \<Rightarrow> ('u, 'e) response \<times> ('s \<times> 'e entry list))
   \<Rightarrow> ('s, 'u, 'e) database \<Rightarrow> request \<Rightarrow> 's \<Rightarrow> ('u, 'e) response \<times> 's \<times> 'e entry list" where
  "run route db req s = (case route (traced db) req (s, []) of (r, (s', calls)) \<Rightarrow> (r, s', calls))"

fun read_only :: "call \<Rightarrow> bool" where
  "read_only FindAll = True"
| "read_only (FindOne i) = True"
| "read_only (FindByEmail e) = True"
| "read_only (ComparePassword e p) = True"
| "read_only (Create b) = False"
| "read_only (Update i b) = False"
| "read_only (Remove i) = False"

text \<open>A store whose four query operations return the store as they found it.\<close>

definition queries_preserve :: "('s, 'u, 'e) database \<Rightarrow> bool" where
  "queries_preserve db \<longleftrightarrow>
     (\<forall>s. snd (findAll db s) = s) \<and>
     (\<forall>i s. snd (findOne db i s) = s) \<and>
     (\<forall>e s. snd (findByEmail db e s) = s) \<and>
     (\<forall>e p s. snd (comparePassword db e p s) = s)"

section \<open>The record store\<close>

text \<open>
  Modelled from the spec: the module \<^verbatim>\<open>./user.database\<close> that the routes import is not
  among the sources, so the store below follows the contract of the Record Store in the
  specification: records keyed by identifier, exact-id lookup, a linear scan for the
  email, a new unique id at creation, replacement of the three mutable fields at update,
  deletion by id, and comparison of the stored secret with the supplied one by equality.
  None of its operations throws; a throwing store is any other value of the interface.
\<close>

record user =
  uid :: string
  username :: jsval
  email :: jsval
  password :: jsval

type_synonym store = "user list"

text \<open>Modelled from the spec: \<open>findAll\<close> returns every record; the empty store yields the empty sequence.\<close>

definition db_findAll :: "store \<Rightarrow> user list" where
  "db_findAll s = s"

text \<open>Modelled from the spec: \<open>findOne\<close> is the exact-id lookup.\<close>

definition db_findOne :: "string \<Rightarrow> store \<Rightarrow> user option" where
  "db_findOne i s = find (\<lambda>u. uid u = i) s"

text \<open>Modelled from the spec: \<open>findByEmail\<close> is a linear scan with an equality match on the email.\<close>

definition db_findByEmail :: "jsval \<Rightarrow> store \<Rightarrow> user option" where
  "db_findByEmail e s = find (\<lambda>u. email u = e) s"

text \<open>
  Modelled from the spec: creation assigns a new unique id. The id chosen here is longer
  than every id in the store, hence different from each.
\<close>

definition new_id :: "store \<Rightarrow> string" where
  "new_id s = replicate (Suc (foldr (\<lambda>u n. max (length (uid u)) n) s 0)) (CHR ''u'')"

text \<open>Modelled from the spec: \<open>create\<close> stores the record and returns it with its generated id.\<close>

definition db_create :: "jsobject \<Rightarrow> store \<Rightarrow> user \<times> store" where
  "db_create userData s =
     (let u = \<lparr>uid = new_id s, username = userData ''username'', email = userData ''email'',
               password = userData ''password''\<rparr>
      in (u, s @ [u]))"

text \<open>
  Modelled from the spec: \<open>update\<close> replaces all mutable fields of the existing record and
  reports an absent id.
\<close>

definition db_update :: "string \<Rightarrow> jsobject \<Rightarrow> store \<Rightarrow> user option \<times> store" where
  "db_update i userData s =
     (case db_findOne i s of
        None \<Rightarrow> (None, s)
      | Some u \<Rightarrow>
          (let u' = u\<lparr>username := userData ''username'', email := userData ''email'',
                      password := userData ''password''\<rparr>
           in (Some u', map (\<lambda>v. if uid v = i then u' else v) s)))"

text \<open>Modelled from the spec: \<open>remove\<close> deletes the record and reports an absent id.\<close>

definition db_remove :: "string \<Rightarrow> store \<Rightarrow> removal \<times> store" where
  "db_remove i s =
     (case db_findOne i s of
        None \<Rightarrow> (Absent, s)
      | Some u \<Rightarrow> (Removed, filter (\<lambda>v. uid v \<noteq> i) s))"

text \<open>
  Modelled from the spec: \<open>comparePassword\<close> looks the account up by email and compares the
  stored secret with the supplied one by equality.
\<close>

definition db_comparePassword :: "jsval \<Rightarrow> jsval \<Rightarrow> store \<Rightarrow> bool" where
  "db_comparePassword e p s =
     (case db_findByEmail e s of None \<Rightarrow> False | Some u \<Rightarrow> password u = p)"

text \<open>Modelled from the spec: the seven operations as one store; none of them throws.\<close>

definition user_database :: "(store, user, 'e) database" where
  "user_database =
     \<lparr>findAll = (\<lambda>s. (Inr (Some (db_findAll s)), s)),
      findOne = (\<lambda>i s. (Inr (db_findOne i s), s)),
      findByEmail = (\<lambda>e s. (Inr (db_findByEmail e s), s)),
      create = (\<lambda>b s. case db_create b s of (u, s') \<Rightarrow> (Inr (Some u), s')),
      update = (\<lambda>i b s. case db_update i b s of (r, s') \<Rightarrow> (Inr r, s')),
      remove = (\<lambda>i s. case db_remove i s of (r, s') \<Rightarrow> (Inr r, s')),
      comparePassword = (\<lambda>e p s. (Inr (db_comparePassword e p s), s))\<rparr>"

text \<open>The records of the store that carry a given email.\<close>

definition records_for :: "jsval \<Rightarrow> store \<Rightarrow> user list" where
  "records_for e s = filter (\<lambda>u. email u = e) s"

section \<open>The router and the field test\<close>

datatype http_method = GET | POST | PUT | DELETE

text \<open>The six routes registered on \<^verbatim>\<open>userRouter\<close>, in the order of the source.\<close>

definition userRouter ::
  "(http_method \<times> string \<times>
    (('s, 'u, 'e) database \<Rightarrow> request \<Rightarrow> 's \<Rightarrow> ('u, 'e) response \<times> 's)) list" where
  "userRouter =
     [(GET, ''/users'', get_users),
      (GET, ''/users/:id'', get_user),
      (POST, ''/register'', post_register),
      (POST, ''/login'', post_login),
      (PUT, ''/users/:id'', put_user),
      (DELETE, ''/users/:id'', delete_user)]"

text \<open>
  The negation of the test \<^verbatim>\<open>!username || !email || !password\<close> of the register and
  update routes: each of the three properties is there and truthy.
\<close>

definition all_three :: "request \<Rightarrow> bool" where
  "all_three req \<longleftrightarrow>
     js_truthy (body req ''username'') \<and> js_truthy (body req ''email'') \<and>
     js_truthy (body req ''password'')"

section \<open>Sample users, bodies and stores\<close>

definition ann :: user where
  "ann = \<lparr>uid = ''u'', username = Some (JStr ''ann''), email = Some (JStr ''ann@example.org''),
          password = Some (JStr ''s3cret'')\<rparr>"

definition ann_body :: jsobject where
  "ann_body = [''username'' \<mapsto> JStr ''ann'', ''email'' \<mapsto> JStr ''ann@example.org'',
               ''password'' \<mapsto> JStr ''s3cret'']"

definition bob_body :: jsobject where
  "bob_body = [''username'' \<mapsto> JStr ''bob'', ''email'' \<mapsto> JStr ''bob@example.org'',
               ''password'' \<mapsto> JStr ''hunter2'', ''role'' \<mapsto> JStr ''admin'']"

definition request_of :: "string \<Rightarrow> jsobject \<Rightarrow> request" where
  "request_of i b = \<lparr>params_id = i, body = b\<rparr>"

definition the_store :: "(store, user, string) database" where
  "the_store = user_database"

text \<open>A store whose \<open>remove\<close> reports that nothing was there, and one whose \<open>remove\<close> throws.\<close>

definition remove_reports_absent :: "(store, user, string) database" where
  "remove_reports_absent = user_database\<lparr>remove := (\<lambda>i s. (Inr Absent, s))\<rparr>"

definition remove_throws :: "(store, user, string) database" where
  "remove_throws = user_database\<lparr>remove := (\<lambda>i s. (Inl ''storage error'', s))\<rparr>"

text \<open>A store whose \<open>update\<close> throws, and one where every operation throws.\<close>

definition update_throws :: "(store, user, string) database" where
  "update_throws = user_database\<lparr>update := (\<lambda>i b s. (Inl ''storage error'', s))\<rparr>"

definition all_throw :: "(store, user, string) database" where
  "all_throw =
     \<lparr>findAll = (\<lambda>s. (Inl ''storage error'', s)),
      findOne = (\<lambda>i s. (Inl ''storage error'', s)),
      findByEmail = (\<lambda>e s. (Inl ''storage error'', s)),
      create = (\<lambda>b s. (Inl ''storage error'', s)),
      update = (\<lambda>i b s. (Inl ''storage error'', s)),
      remove = (\<lambda>i s. (Inl ''storage error'', s)),
      comparePassword = (\<lambda>e p s. (Inl ''storage error'', s))\<rparr>"

section \<open>Every path of every route\<close>

lemmas block_defs = await_def respond_def try_catch_def Let_def logged_def

lemma traced_simps [simp]:
  "findAll (traced db) = logged FindAll (findAll db)"
  "findOne (traced db) i = logged (FindOne i) (findOne db i)"
  "findByEmail (traced db) e = logged (FindByEmail e) (findByEmail db e)"
  "create (traced db) b = logged (Create b) (create db b)"
  "update (traced db) i b = logged (Update i b) (update db i b)"
  "remove (traced db) i = logged (Remove i) (remove db i)"
  "comparePassword (traced db) e p = logged (ComparePassword e p) (comparePassword db e p)"
  by (simp_all add: traced_def)

subsection \<open>GET /users\<close>

lemma get_users_throws:
  "findAll db s = (Inl e, s1) \<Longrightarrow>
   run get_users db req s =
     (\<lparr>status = 500, payload = CaughtBody e\<rparr>, s1, [(FindAll, Some e)])"
  by (simp add: run_def get_users_def block_defs)

lemma get_users_falsy:
  "findAll db s = (Inr None, s1) \<Longrightarrow>
   run get_users db req s =
     (\<lparr>status = 404, payload = MsgBody ''No users at this time..''\<rparr>, s1, [(FindAll, None)])"
  by (simp add: run_def get_users_def block_defs)

lemma get_users_array:
  "findAll db s = (Inr (Some us), s1) \<Longrightarrow>
   run get_users db req s =
     (\<lparr>status = 200, payload = AllUsersBody (length us) us\<rparr>, s1, [(FindAll, None)])"
  by (simp add: run_def get_users_def block_defs)

subsection \<open>GET /users/:id\<close>

lemma get_user_throws:
  "findOne db (params_id req) s = (Inl e, s1) \<Longrightarrow>
   run get_user db req s =
     (\<lparr>status = 500, payload = CaughtBody e\<rparr>, s1, [(FindOne (params_id req), Some e)])"
  by (simp add: run_def get_user_def block_defs)

lemma get_user_absent:
  "findOne db (params_id req) s = (Inr None, s1) \<Longrightarrow>
   run get_user db req s =
     (\<lparr>status = 404, payload = ErrorBody ''User not found!''\<rparr>, s1,
      [(FindOne (params_id req), None)])"
  by (simp add: run_def get_user_def block_defs)

lemma get_user_found:
  "findOne db (params_id req) s = (Inr (Some u), s1) \<Longrightarrow>
   run get_user db req s =
     (\<lparr>status = 200, payload = UserBody u\<rparr>, s1, [(FindOne (params_id req), None)])"
  by (simp add: run_def get_user_def block_defs)

subsection \<open>POST /register\<close>

lemma post_register_missing:
  "\<not> all_three req \<Longrightarrow>
   run post_register db req s =
     (\<lparr>status = 400, payload = ErrorBody ''Please provide all the required parameters..''\<rparr>,
      s, [])"
  by (auto simp: all_three_def run_def post_register_def block_defs)

lemma post_register_find_throws:
  "all_three req \<Longrightarrow> findByEmail db (body req ''email'') s = (Inl e, s1) \<Longrightarrow>
   run post_register db req s =
     (\<lparr>status = 500, payload = CaughtBody e\<rparr>, s1,
      [(FindByEmail (body req ''email''), Some e)])"
  by (simp add: all_three_def run_def post_register_def block_defs)

lemma post_register_duplicate:
  "all_three req \<Longrightarrow> findByEmail db (body req ''email'') s = (Inr (Some u), s1) \<Longrightarrow>
   run post_register db req s =
     (\<lparr>status = 400, payload = ErrorBody ''This email has already been registered..''\<rparr>, s1,
      [(FindByEmail (body req ''email''), None)])"
  by (simp add: all_three_def run_def post_register_def block_defs)

lemma post_register_create_throws:
  "all_three req \<Longrightarrow> findByEmail db (body req ''email'') s = (Inr None, s1) \<Longrightarrow>
   create db (body req) s1 = (Inl e, s2) \<Longrightarrow>
   run post_register db req s =
     (\<lparr>status = 500, payload = CaughtBody e\<rparr>, s2,
      [(FindByEmail (body req ''email''), None), (Create (body req), Some e)])"
  by (simp add: all_three_def run_def post_register_def block_defs)

lemma post_register_created:
  "all_three req \<Longrightarrow> findByEmail db (body req ''email'') s = (Inr None, s1) \<Longrightarrow>
   create db (body req) s1 = (Inr newUser, s2) \<Longrightarrow>
   run post_register db req s =
     (\<lparr>status = 201, payload = NewUserBody newUser\<rparr>, s2,
      [(FindByEmail (body req ''email''), None), (Create (body req), None)])"
  by (simp add: all_three_def run_def post_register_def block_defs)

subsection \<open>POST /login\<close>

lemma post_login_missing:
  "\<not> js_truthy (body req ''email'') \<or> \<not> js_truthy (body req ''password'') \<Longrightarrow>
   run post_login db req s =
     (\<lparr>status = 400, payload = ErrorBody ''Please provide all the required parameters..''\<rparr>,
      s, [])"
  by (auto simp: run_def post_login_def block_defs)

lemma post_login_find_throws:
  "js_truthy (body req ''email'') \<Longrightarrow> js_truthy (body req ''password'') \<Longrightarrow>
   findByEmail db (body req ''email'') s = (Inl e, s1) \<Longrightarrow>
   run post_login db req s =
     (\<lparr>status = 500, payload = CaughtBody e\<rparr>, s1,
      [(FindByEmail (body req ''email''), Some e)])"
  by (simp add: run_def post_login_def block_defs)

lemma post_login_unknown:
  "js_truthy (body req ''email'') \<Longrightarrow> js_truthy (body req ''password'') \<Longrightarrow>
   findByEmail db (body req ''email'') s = (Inr None, s1) \<Longrightarrow>
   run post_login db req s =
     (\<lparr>status = 404, payload = ErrorBody ''No user exists with the email provided..''\<rparr>, s1,
      [(FindByEmail (body req ''email''), None)])"
  by (simp add: run_def post_login_def block_defs)

lemma post_login_compare_throws:
  "js_truthy (body req ''email'') \<Longrightarrow> js_truthy (body req ''password'') \<Longrightarrow>
   findByEmail db (body req ''email'') s = (Inr (Some u), s1) \<Longrightarrow>
   comparePassword db (body req ''email'') (body req ''password'') s1 = (Inl e, s2) \<Longrightarrow>
   run post_login db req s =
     (\<lparr>status = 500, payload = CaughtBody e\<rparr>, s2,
      [(FindByEmail (body req ''email''), None),
       (ComparePassword (body req ''email'') (body req ''password''), Some e)])"
  by (simp add: run_def post_login_def block_defs)

lemma post_login_mismatch:
  "js_truthy (body req ''email'') \<Longrightarrow> js_truthy (body req ''password'') \<Longrightarrow>
   findByEmail db (body req ''email'') s = (Inr (Some u), s1) \<Longrightarrow>
   comparePassword db (body req ''email'') (body req ''password'') s1 = (Inr False, s2) \<Longrightarrow>
   run post_login db req s =
     (\<lparr>status = 400, payload = ErrorBody ''Incorrect Password!''\<rparr>, s2,
      [(FindByEmail (body req ''email''), None),
       (ComparePassword (body req ''email'') (body req ''password''), None)])"
  by (simp add: run_def post_login_def block_defs)

lemma post_login_match:
  "js_truthy (body req ''email'') \<Longrightarrow> js_truthy (body req ''password'') \<Longrightarrow>
   findByEmail db (body req ''email'') s = (Inr (Some u), s1) \<Longrightarrow>
   comparePassword db (body req ''email'') (body req ''password'') s1 = (Inr True, s2) \<Longrightarrow>
   run post_login db req s =
     (\<lparr>status = 200, payload = UserBody u\<rparr>, s2,
      [(FindByEmail (body req ''email''), None),
       (ComparePassword (body req ''email'') (body req ''password''), None)])"
  by (simp add: run_def post_login_def block_defs)

subsection \<open>PUT /users/:id\<close>

lemma put_user_find_throws:
  "findOne db (params_id req) s = (Inl e, s1) \<Longrightarrow>
   run put_user db req s =
     (\<lparr>status = 500, payload = CaughtBody e\<rparr>, s1, [(FindOne (params_id req), Some e)])"
  by (simp add: run_def put_user_def block_defs)

lemma put_user_missing:
  "findOne db (params_id req) s = (Inr getUser, s1) \<Longrightarrow> \<not> all_three req \<Longrightarrow>
   run put_user db req s =
     (\<lparr>status = 401, payload = ErrorBody ''Please provide all the required parameters..''\<rparr>,
      s1, [(FindOne (params_id req), None)])"
  by (auto simp: all_three_def run_def put_user_def block_defs)

lemma put_user_absent:
  "findOne db (params_id req) s = (Inr None, s1) \<Longrightarrow> all_three req \<Longrightarrow>
   run put_user db req s =
     (\<lparr>status = 404, payload = ErrorBody (''No user with id '' @ params_id req)\<rparr>,
      s1, [(FindOne (params_id req), None)])"
  by (simp add: all_three_def run_def put_user_def block_defs)

lemma put_user_update_throws:
  "findOne db (params_id req) s = (Inr (Some u), s1) \<Longrightarrow> all_three req \<Longrightarrow>
   update db (params_id req) (body req) s1 = (Inl e, s2) \<Longrightarrow>
   run put_user db req s =
     (\<lparr>status = 500, payload = CaughtBody e\<rparr>, s2,
      [(FindOne (params_id req), None), (Update (params_id req) (body req), Some e)])"
  by (simp add: all_three_def run_def put_user_def block_defs)

lemma put_user_updated:
  "findOne db (params_id req) s = (Inr (Some u), s1) \<Longrightarrow> all_three req \<Longrightarrow>
   update db (params_id req) (body req) s1 = (Inr updateUser, s2) \<Longrightarrow>
   run put_user db req s =
     (\<lparr>status = 201, payload = UpdateUserBody updateUser\<rparr>, s2,
      [(FindOne (params_id req), None), (Update (params_id req) (body req), None)])"
  by (simp add: all_three_def run_def put_user_def block_defs)

subsection \<open>DELETE /users/:id\<close>

lemma delete_user_find_throws:
  "findOne db (params_id req) s = (Inl e, s1) \<Longrightarrow>
   run delete_user db req s =
     (\<lparr>status = 500, payload = CaughtBody e\<rparr>, s1, [(FindOne (params_id req), Some e)])"
  by (simp add: run_def delete_user_def block_defs)

lemma delete_user_absent:
  "findOne db (params_id req) s = (Inr None, s1) \<Longrightarrow>
   run delete_user db req s =
     (\<lparr>status = 404, payload = ErrorBody ''User does not exist''\<rparr>, s1,
      [(FindOne (params_id req), None)])"
  by (simp add: run_def delete_user_def block_defs)

lemma delete_user_remove_throws:
  "findOne db (params_id req) s = (Inr (Some u), s1) \<Longrightarrow>
   remove db (params_id req) s1 = (Inl e, s2) \<Longrightarrow>
   run delete_user db req s =
     (\<lparr>status = 500, payload = CaughtBody e\<rparr>, s2,
      [(FindOne (params_id req), None), (Remove (params_id req), Some e)])"
  by (simp add: run_def delete_user_def block_defs)

lemma delete_user_removed:
  "findOne db (params_id req) s = (Inr (Some u), s1) \<Longrightarrow>
   remove db (params_id req) s1 = (Inr r, s2) \<Longrightarrow>
   run delete_user db req s =
     (\<lparr>status = 200, payload = MsgBody ''User deleted''\<rparr>, s2,
      [(FindOne (params_id req), None), (Remove (params_id req), None)])"
  by (simp add: run_def delete_user_def block_defs)

subsection \<open>Tracing does not change what a route does\<close>

text \<open>
  Running a route on the recording store gives the response and the store that the route
  gives on the store itself.
\<close>

lemma get_users_untraced:
  "run get_users db req s = (resp, s', cs) \<Longrightarrow> get_users db req s = (resp, s')"
  by (auto simp: run_def traced_def get_users_def block_defs
      split: prod.splits sum.splits option.splits)

lemma get_user_untraced:
  "run get_user db req s = (resp, s', cs) \<Longrightarrow> get_user db req s = (resp, s')"
  by (auto simp: run_def traced_def get_user_def block_defs
      split: prod.splits sum.splits option.splits)

lemma post_register_untraced:
  "run post_register db req s = (resp, s', cs) \<Longrightarrow> post_register db req s = (resp, s')"
  by (auto simp: run_def traced_def post_register_def block_defs
      split: prod.splits sum.splits option.splits if_splits)

lemma post_login_untraced:
  "run post_login db req s = (resp, s', cs) \<Longrightarrow> post_login db req s = (resp, s')"
  by (auto simp: run_def traced_def post_login_def block_defs
      split: prod.splits sum.splits option.splits if_splits)

lemma put_user_untraced:
  "run put_user db req s = (resp, s', cs) \<Longrightarrow> put_user db req s = (resp, s')"
  by (auto simp: run_def traced_def put_user_def block_defs
      split: prod.splits sum.splits option.splits if_splits)

lemma delete_user_untraced:
  "run delete_user db req s = (resp, s', cs) \<Longrightarrow> delete_user db req s = (resp, s')"
  by (auto simp: run_def traced_def delete_user_def block_defs
      split: prod.splits sum.splits option.splits if_splits)

subsection \<open>Facts that hold on every path of a route\<close>

lemma get_users_caught:
  "run get_users db req s = (resp, s', cs) \<Longrightarrow> (c, Some e) \<in> set cs \<Longrightarrow>
   resp = \<lparr>status = 500, payload = CaughtBody e\<rparr> \<and> last cs = (c, Some e)"
  by (auto simp: run_def get_users_def block_defs split: prod.splits sum.splits option.splits)

lemma get_user_caught:
  "run get_user db req s = (resp, s', cs) \<Longrightarrow> (c, Some e) \<in> set cs \<Longrightarrow>
   resp = \<lparr>status = 500, payload = CaughtBody e\<rparr> \<and> last cs = (c, Some e)"
  by (auto simp: run_def get_user_def block_defs split: prod.splits sum.splits option.splits)

lemma post_register_caught:
  "run post_register db req s = (resp, s', cs) \<Longrightarrow> (c, Some e) \<in> set cs \<Longrightarrow>
   resp = \<lparr>status = 500, payload = CaughtBody e\<rparr> \<and> last cs = (c, Some e)"
  by (auto simp: run_def post_register_def block_defs
      split: prod.splits sum.splits option.splits if_splits)

lemma post_login_caught:
  "run post_login db req s = (resp, s', cs) \<Longrightarrow> (c, Some e) \<in> set cs \<Longrightarrow>
   resp = \<lparr>status = 500, payload = CaughtBody e\<rparr> \<and> last cs = (c, Some e)"
  by (auto simp: run_def post_login_def block_defs
      split: prod.splits sum.splits option.splits if_splits)

lemma put_user_caught:
  "run put_user db req s = (resp, s', cs) \<Longrightarrow> (c, Some e) \<in> set cs \<Longrightarrow>
   resp = \<lparr>status = 500, payload = CaughtBody e\<rparr> \<and> last cs = (c, Some e)"
  by (auto simp: run_def put_user_def block_defs
      split: prod.splits sum.splits option.splits if_splits)

lemma delete_user_caught:
  "run delete_user db req s = (resp, s', cs) \<Longrightarrow> (c, Some e) \<in> set cs \<Longrightarrow>
   resp = \<lparr>status = 500, payload = CaughtBody e\<rparr> \<and> last cs = (c, Some e)"
  by (auto simp: run_def delete_user_def block_defs
      split: prod.splits sum.splits option.splits if_splits)

lemma userRouter_cases:
  "(m, path, route) \<in> set userRouter \<Longrightarrow>
   route = get_users \<or> route = get_user \<or> route = post_register \<or> route = post_login \<or>
   route = put_user \<or> route = delete_user"
  by (auto simp: userRouter_def)

lemma get_users_calls:
  "run get_users db req s = (resp, s', cs) \<Longrightarrow> x \<in> set cs \<Longrightarrow> fst x = FindAll"
  by (auto simp: run_def get_users_def block_defs split: prod.splits sum.splits option.splits)

lemma get_user_calls:
  "run get_user db req s = (resp, s', cs) \<Longrightarrow> x \<in> set cs \<Longrightarrow> fst x = FindOne (params_id req)"
  by (auto simp: run_def get_user_def block_defs split: prod.splits sum.splits option.splits)

lemma post_login_calls:
  "run post_login db req s = (resp, s', cs) \<Longrightarrow> x \<in> set cs \<Longrightarrow>
   fst x = FindByEmail (body req ''email'') \<or>
   fst x = ComparePassword (body req ''email'') (body req ''password'')"
  by (auto simp: run_def post_login_def block_defs
      split: prod.splits sum.splits option.splits if_splits)

lemma post_register_calls:
  "run post_register db req s = (resp, s', cs) \<Longrightarrow> x \<in> set cs \<Longrightarrow>
   fst x = FindByEmail (body req ''email'') \<or> fst x = Create (body req)"
  by (auto simp: run_def post_register_def block_defs
      split: prod.splits sum.splits option.splits if_splits)

lemma put_user_calls:
  "run put_user db req s = (resp, s', cs) \<Longrightarrow> x \<in> set cs \<Longrightarrow>
   fst x = FindOne (params_id req) \<or> fst x = Update (params_id req) (body req)"
  by (auto simp: run_def put_user_def block_defs
      split: prod.splits sum.splits option.splits if_splits)

lemma delete_user_calls:
  "run delete_user db req s = (resp, s', cs) \<Longrightarrow> x \<in> set cs \<Longrightarrow>
   fst x = FindOne (params_id req) \<or> fst x = Remove (params_id req)"
  by (auto simp: run_def delete_user_def block_defs
      split: prod.splits sum.splits option.splits if_splits)

lemma get_users_read_only:
  "run get_users db req s = (resp, s', cs) \<Longrightarrow> x \<in> set cs \<Longrightarrow> read_only (fst x)"
  using get_users_calls [of db req s resp s' cs x] by simp

lemma get_user_read_only:
  "run get_user db req s = (resp, s', cs) \<Longrightarrow> x \<in> set cs \<Longrightarrow> read_only (fst x)"
  using get_user_calls [of db req s resp s' cs x] by simp

lemma post_login_read_only:
  "run post_login db req s = (resp, s', cs) \<Longrightarrow> x \<in> set cs \<Longrightarrow> read_only (fst x)"
  using post_login_calls [of db req s resp s' cs x] by auto

lemma preserved_findAll: "queries_preserve db \<Longrightarrow> findAll db s = (r, s1) \<Longrightarrow> s1 = s"
  by (metis queries_preserve_def snd_conv)

lemma preserved_findOne: "queries_preserve db \<Longrightarrow> findOne db i s = (r, s1) \<Longrightarrow> s1 = s"
  by (metis queries_preserve_def snd_conv)

lemma preserved_findByEmail: "queries_preserve db \<Longrightarrow> findByEmail db e s = (r, s1) \<Longrightarrow> s1 = s"
  by (metis queries_preserve_def snd_conv)

lemma preserved_comparePassword:
  "queries_preserve db \<Longrightarrow> comparePassword db e p s = (r, s1) \<Longrightarrow> s1 = s"
  by (metis queries_preserve_def snd_conv)

lemma get_users_store:
  "queries_preserve db \<Longrightarrow> run get_users db req s = (resp, s', cs) \<Longrightarrow> s' = s"
  by (auto simp: run_def get_users_def block_defs dest: preserved_findAll
      split: prod.splits sum.splits option.splits)

lemma get_user_store:
  "queries_preserve db \<Longrightarrow> run get_user db req s = (resp, s', cs) \<Longrightarrow> s' = s"
  by (auto simp: run_def get_user_def block_defs dest: preserved_findOne
      split: prod.splits sum.splits option.splits)

lemma post_login_store:
  "queries_preserve db \<Longrightarrow> run post_login db req s = (resp, s', cs) \<Longrightarrow> s' = s"
  by (auto simp: run_def post_login_def block_defs
      dest: preserved_findByEmail preserved_comparePassword
      split: prod.splits sum.splits option.splits if_splits)

section \<open>The record store: lookups, fresh ids, sizes\<close>

lemma user_database_sel [simp]:
  "findAll user_database s = (Inr (Some s), s)"
  "findOne user_database i s = (Inr (db_findOne i s), s)"
  "findByEmail user_database e s = (Inr (db_findByEmail e s), s)"
  "create user_database b s = (Inr (Some (fst (db_create b s))), snd (db_create b s))"
  "update user_database i b s = (Inr (fst (db_update i b s)), snd (db_update i b s))"
  "remove user_database i s = (Inr (fst (db_remove i s)), snd (db_remove i s))"
  "comparePassword user_database e p s = (Inr (db_comparePassword e p s), s)"
  by (simp_all add: user_database_def db_findAll_def split: prod.splits)

lemma user_database_queries: "queries_preserve user_database"
  by (simp add: queries_preserve_def)

lemma id_length_bound:
  "u \<in> set s \<Longrightarrow> length (uid u) \<le> foldr (\<lambda>u n. max (length (uid u)) n) s 0"
  by (induction s) auto

lemma new_id_fresh: "u \<in> set s \<Longrightarrow> uid u \<noteq> new_id s"
proof
  assume mem: "u \<in> set s" and eq: "uid u = new_id s"
  from mem have "length (uid u) \<le> foldr (\<lambda>u n. max (length (uid u)) n) s 0"
    by (rule id_length_bound)
  moreover have "length (new_id s) = Suc (foldr (\<lambda>u n. max (length (uid u)) n) s 0)"
    by (simp add: new_id_def)
  ultimately show False using eq by simp
qed

lemma find_snoc:
  "\<forall>v \<in> set s. \<not> P v \<Longrightarrow> find P (s @ [u]) = (if P u then Some u else None)"
  by (induction s) auto

lemma find_None_filter: "find P s = None \<Longrightarrow> filter P s = []"
  by (induction s) (auto split: if_splits)

lemma find_Some_mem: "find P s = Some u \<Longrightarrow> u \<in> set s \<and> P u"
  by (induction s) (auto split: if_splits)

lemma created_is_found:
  "db_findOne (uid (fst (db_create b s))) (snd (db_create b s)) = Some (fst (db_create b s))"
  by (simp add: db_findOne_def db_create_def Let_def find_snoc new_id_fresh)

lemma created_fields:
  "username (fst (db_create b s)) = b ''username'' \<and>
   email (fst (db_create b s)) = b ''email'' \<and>
   password (fst (db_create b s)) = b ''password''"
  by (simp add: db_create_def Let_def)

lemma created_records_for:
  "records_for e s = [] \<Longrightarrow> b ''email'' = e \<Longrightarrow>
   records_for e (snd (db_create b s)) = [fst (db_create b s)]"
  by (simp add: records_for_def db_create_def Let_def)

lemma records_for_found:
  "records_for e s = [u] \<Longrightarrow> db_findByEmail e s = Some u"
  unfolding records_for_def db_findByEmail_def
  by (induction s) (auto split: if_splits simp: filter_empty_conv)

lemma no_records_not_found: "records_for e s = [] \<longleftrightarrow> db_findByEmail e s = None"
  by (auto simp: records_for_def db_findByEmail_def find_None_iff filter_empty_conv)

lemma create_keeps_ids_distinct:
  "distinct (map uid s) \<Longrightarrow> distinct (map uid (snd (db_create b s)))"
proof -
  assume d: "distinct (map uid s)"
  have "new_id s \<notin> uid ` set s"
  proof
    assume "new_id s \<in> uid ` set s"
    then obtain u where "u \<in> set s" and "uid u = new_id s" by auto
    then show False using new_id_fresh by blast
  qed
  with d show ?thesis by (simp add: db_create_def Let_def)
qed

lemma update_keeps_ids:
  "map uid (snd (db_update i b s)) = map uid s"
proof (cases "db_findOne i s")
  case None
  then show ?thesis by (simp add: db_update_def)
next
  case (Some u)
  then have "uid u = i"
    by (auto simp: db_findOne_def dest: find_Some_mem)
  with Some show ?thesis by (simp add: db_update_def Let_def)
qed

lemma remove_keeps_ids_distinct:
  "distinct (map uid s) \<Longrightarrow> distinct (map uid (snd (db_remove i s)))"
  by (simp add: db_remove_def distinct_map_filter split: option.splits)

lemma filter_other_ids:
  "distinct (map uid s) \<Longrightarrow> find (\<lambda>v. uid v = i) s = Some u \<Longrightarrow>
   Suc (length (filter (\<lambda>v. uid v \<noteq> i) s)) = length s"
proof (induction s)
  case Nil
  then show ?case by simp
next
  case (Cons a s)
  show ?case
  proof (cases "uid a = i")
    case True
    with Cons.prems have "i \<notin> uid ` set s" by simp
    then have "\<forall>v \<in> set s. uid v \<noteq> i" by blast
    then have "filter (\<lambda>v. uid v \<noteq> i) s = s" by (simp add: filter_id_conv)
    with True show ?thesis by simp
  next
    case False
    with Cons show ?thesis by simp
  qed
qed

lemma removed_one:
  "distinct (map uid s) \<Longrightarrow> db_findOne i s = Some u \<Longrightarrow>
   fst (db_remove i s) = Removed \<and>
   Suc (length (snd (db_remove i s))) = length s \<and>
   db_findOne i (snd (db_remove i s)) = None \<and>
   set (snd (db_remove i s)) = set s - {u}"
proof -
  assume d: "distinct (map uid s)" and f: "db_findOne i s = Some u"
  from f have mem: "u \<in> set s" and idu: "uid u = i"
    by (auto simp: db_findOne_def dest: find_Some_mem)
  have "\<And>v. v \<in> set s \<Longrightarrow> uid v = i \<Longrightarrow> v = u"
    using d mem idu by (metis distinct_map inj_onD)
  then have "set (filter (\<lambda>v. uid v \<noteq> i) s) = set s - {u}"
    using idu by auto
  moreover have "Suc (length (filter (\<lambda>v. uid v \<noteq> i) s)) = length s"
    using d f by (simp add: db_findOne_def filter_other_ids)
  moreover have "find (\<lambda>v. uid v = i) (filter (\<lambda>v. uid v \<noteq> i) s) = None"
    by (simp add: find_None_iff)
  ultimately show ?thesis using f by (simp add: db_remove_def db_findOne_def)
qed

lemma remove_absent:
  "db_findOne i s = None \<Longrightarrow> db_remove i s = (Absent, s)"
  by (simp add: db_remove_def)

lemma find_replaced:
  "find (\<lambda>v. uid v = i) s = Some u \<Longrightarrow> uid u' = i \<Longrightarrow>
   find (\<lambda>v. uid v = i) (map (\<lambda>v. if uid v = i then u' else v) s) = Some u'"
  by (induction s) (auto split: if_splits)

lemma filter_replaced:
  "uid u' = i \<Longrightarrow>
   filter (\<lambda>v. uid v \<noteq> i) (map (\<lambda>v. if uid v = i then u' else v) s) =
   filter (\<lambda>v. uid v \<noteq> i) s"
  by (induction s) auto

lemma updated_record:
  assumes "db_findOne i s = Some u"
  shows "fst (db_update i b s) =
           Some (u\<lparr>username := b ''username'', email := b ''email'', password := b ''password''\<rparr>)"
    and "db_findOne i (snd (db_update i b s)) = fst (db_update i b s)"
    and "length (snd (db_update i b s)) = length s"
    and "filter (\<lambda>v. uid v \<noteq> i) (snd (db_update i b s)) = filter (\<lambda>v. uid v \<noteq> i) s"
proof -
  from assms have idu: "uid u = i"
    by (auto simp: db_findOne_def dest: find_Some_mem)
  show "fst (db_update i b s) =
           Some (u\<lparr>username := b ''username'', email := b ''email'', password := b ''password''\<rparr>)"
    using assms by (simp add: db_update_def Let_def)
  show "db_findOne i (snd (db_update i b s)) = fst (db_update i b s)"
    using assms idu by (simp add: db_update_def Let_def db_findOne_def find_replaced)
  show "length (snd (db_update i b s)) = length s"
    using assms by (simp add: db_update_def Let_def)
  show "filter (\<lambda>v. uid v \<noteq> i) (snd (db_update i b s)) = filter (\<lambda>v. uid v \<noteq> i) s"
    using assms idu by (simp add: db_update_def Let_def filter_replaced)
qed

lemma update_absent:
  "db_findOne i s = None \<Longrightarrow> db_update i b s = (None, s)"
  by (simp add: db_update_def)

section \<open>The claims\<close>

text \<open>
  C10. In the delete route, once \<open>findOne\<close> has found the user, the answer is 200 with the
  deletion message whatever \<open>remove\<close> returns, also when it reports that nothing was
  there; only a value thrown by \<open>remove\<close> changes the answer, to 500 with that value.
\<close>

theorem delete_ignores_remove_result:
  assumes "findOne db (params_id req) s = (Inr (Some u), s1)"
  shows "(remove db (params_id req) s1 = (Inr r, s2) \<longrightarrow>
            fst (run delete_user db req s) = \<lparr>status = 200, payload = MsgBody ''User deleted''\<rparr>) \<and>
         (remove db (params_id req) s1 = (Inl e, s2) \<longrightarrow>
            fst (run delete_user db req s) = \<lparr>status = 500, payload = CaughtBody e\<rparr>)"
  using assms by (simp add: delete_user_removed delete_user_remove_throws)

theorem delete_ignores_remove_result_witness:
  "findOne remove_reports_absent (params_id (request_of ''u'' Map.empty)) [ann] =
     (Inr (Some ann), [ann]) \<and>
   remove remove_reports_absent ''u'' [ann] = (Inr Absent, [ann]) \<and>
   fst (run delete_user remove_reports_absent (request_of ''u'' Map.empty) [ann]) =
     \<lparr>status = 200, payload = MsgBody ''User deleted''\<rparr> \<and>
   findOne remove_throws (params_id (request_of ''u'' Map.empty)) [ann] =
     (Inr (Some ann), [ann]) \<and>
   remove remove_throws ''u'' [ann] = (Inl ''storage error'', [ann]) \<and>
   fst (run delete_user remove_throws (request_of ''u'' Map.empty) [ann]) =
     \<lparr>status = 500, payload = CaughtBody ''storage error''\<rparr>"
  using
    delete_ignores_remove_result [where db = remove_reports_absent
      and req = "request_of ''u'' Map.empty" and s = "[ann]" and u = ann and ?s1.0 = "[ann]"
      and r = Absent and ?s2.0 = "[ann]"]
    delete_ignores_remove_result [where db = remove_throws
      and req = "request_of ''u'' Map.empty" and s = "[ann]" and u = ann and ?s1.0 = "[ann]"
      and e = "''storage error''" and ?s2.0 = "[ann]"]
  by (simp add: remove_reports_absent_def remove_throws_def request_of_def user_database_def
      db_findOne_def ann_def)

text \<open>
  C1. The list route tests the result of \<open>findAll\<close> with \<^verbatim>\<open>!allUsers\<close>. An empty array is
  truthy, so on a store with no users the answer is 200 with \<open>total_user = 0\<close> and the empty
  array, not the 404 that the comment above the route announces. This holds for every
  store whose \<open>findAll\<close> returns the empty array, and for the empty record store.
\<close>

theorem get_users_empty_array:
  "run get_users (db\<lparr>findAll := (\<lambda>s. (Inr (Some []), s))\<rparr>) req s =
     (\<lparr>status = 200, payload = AllUsersBody 0 []\<rparr>, s, [(FindAll, None)]) \<and>
   run get_users user_database req [] =
     (\<lparr>status = 200, payload = AllUsersBody 0 []\<rparr>, [], [(FindAll, None)])"
  by (simp add: get_users_array)

text \<open>
  C2. Registration. A field counts as missing when the route's own test \<^verbatim>\<open>!field\<close>
  holds: the property is absent, or its value is falsy (the empty string, for one).
  If a field is missing the answer is 400 and no store operation is called. Otherwise
  \<open>findByEmail\<close> is called with the email; if it finds a user the answer is 400 and \<open>create\<close>
  is not called; if it finds none, \<open>create\<close> is called with the body and the answer is 201
  with what \<open>create\<close> returned. On the record store: a registration whose email has exactly
  one record leaves it at exactly one, and registering twice with a new email answers 201,
  then 400, and leaves exactly one record for that email.
\<close>

theorem register_checks_in_order:
  "(\<not> all_three req \<longrightarrow>
      run post_register (db :: ('s, 'u, 'e) database) req s =
        (\<lparr>status = 400, payload = ErrorBody ''Please provide all the required parameters..''\<rparr>,
         s, [])) \<and>
   (all_three req \<and> findByEmail db (body req ''email'') s = (Inr (Some u), s1) \<longrightarrow>
      run post_register db req s =
        (\<lparr>status = 400, payload = ErrorBody ''This email has already been registered..''\<rparr>,
         s1, [(FindByEmail (body req ''email''), None)])) \<and>
   (all_three req \<and> findByEmail db (body req ''email'') s = (Inr None, s1) \<and>
    create db (body req) s1 = (Inr newUser, s2) \<longrightarrow>
      run post_register db req s =
        (\<lparr>status = 201, payload = NewUserBody newUser\<rparr>, s2,
         [(FindByEmail (body req ''email''), None), (Create (body req), None)])) \<and>
   (all_three req \<and> records_for (body req ''email'') st = [old] \<longrightarrow>
      (\<exists>st'. run post_register (user_database :: (store, user, 'e) database) req st =
          (\<lparr>status = 400, payload = ErrorBody ''This email has already been registered..''\<rparr>,
           st', [(FindByEmail (body req ''email''), None)]) \<and>
        records_for (body req ''email'') st' = [old])) \<and>
   (all_three req \<and> all_three again \<and> body again ''email'' = body req ''email'' \<and>
    records_for (body req ''email'') st = [] \<longrightarrow>
      (\<exists>new st'.
        run post_register (user_database :: (store, user, 'e) database) req st =
          (\<lparr>status = 201, payload = NewUserBody (Some new)\<rparr>, st',
           [(FindByEmail (body req ''email''), None), (Create (body req), None)]) \<and>
        run post_register (user_database :: (store, user, 'e) database) again st' =
          (\<lparr>status = 400, payload = ErrorBody ''This email has already been registered..''\<rparr>,
           st', [(FindByEmail (body req ''email''), None)]) \<and>
        records_for (body req ''email'') st' = [new]))"
proof (intro conjI impI)
  assume "\<not> all_three req"
  then show "run post_register db req s =
      (\<lparr>status = 400, payload = ErrorBody ''Please provide all the required parameters..''\<rparr>,
       s, [])"
    by (rule post_register_missing)
next
  assume "all_three req \<and> findByEmail db (body req ''email'') s = (Inr (Some u), s1)"
  then show "run post_register db req s =
      (\<lparr>status = 400, payload = ErrorBody ''This email has already been registered..''\<rparr>,
       s1, [(FindByEmail (body req ''email''), None)])"
    by (simp add: post_register_duplicate)
next
  assume "all_three req \<and> findByEmail db (body req ''email'') s = (Inr None, s1) \<and>
    create db (body req) s1 = (Inr newUser, s2)"
  then show "run post_register db req s =
      (\<lparr>status = 201, payload = NewUserBody newUser\<rparr>, s2,
       [(FindByEmail (body req ''email''), None), (Create (body req), None)])"
    by (simp add: post_register_created)
next
  assume a: "all_three req \<and> records_for (body req ''email'') st = [old]"
  then have "db_findByEmail (body req ''email'') st = Some old"
    by (simp add: records_for_found)
  with a have "run post_register user_database req st =
      (\<lparr>status = 400, payload = ErrorBody ''This email has already been registered..''\<rparr>,
       st, [(FindByEmail (body req ''email''), None)])"
    by (simp add: post_register_duplicate)
  with a show "\<exists>st'. run post_register user_database req st =
      (\<lparr>status = 400, payload = ErrorBody ''This email has already been registered..''\<rparr>,
       st', [(FindByEmail (body req ''email''), None)]) \<and>
      records_for (body req ''email'') st' = [old]"
    by blast
next
  assume a: "all_three req \<and> all_three again \<and> body again ''email'' = body req ''email'' \<and>
    records_for (body req ''email'') st = []"
  define new where "new = fst (db_create (body req) st)"
  define st' where "st' = snd (db_create (body req) st)"
  from a have none: "db_findByEmail (body req ''email'') st = None"
    by (simp add: no_records_not_found)
  have first: "run post_register user_database req st =
      (\<lparr>status = 201, payload = NewUserBody (Some new)\<rparr>, st',
       [(FindByEmail (body req ''email''), None), (Create (body req), None)])"
    using a none by (simp add: post_register_created new_def st'_def)
  have one: "records_for (body req ''email'') st' = [new]"
    using a by (simp add: created_records_for new_def st'_def)
  then have "db_findByEmail (body again ''email'') st' = Some new"
    using a by (simp add: records_for_found)
  then have second: "run post_register user_database again st' =
      (\<lparr>status = 400, payload = ErrorBody ''This email has already been registered..''\<rparr>,
       st', [(FindByEmail (body req ''email''), None)])"
    using a post_register_duplicate [of again user_database st' new st'] by simp
  from first second one show "\<exists>new st'.
      run post_register user_database req st =
        (\<lparr>status = 201, payload = NewUserBody (Some new)\<rparr>, st',
         [(FindByEmail (body req ''email''), None), (Create (body req), None)]) \<and>
      run post_register user_database again st' =
        (\<lparr>status = 400, payload = ErrorBody ''This email has already been registered..''\<rparr>,
         st', [(FindByEmail (body req ''email''), None)]) \<and>
      records_for (body req ''email'') st' = [new]"
    by blast
qed

theorem register_checks_in_order_witness:
  "\<not> all_three (request_of [] [''username'' \<mapsto> JStr ''ann'', ''email'' \<mapsto> JStr ''ann@example.org'']) \<and>
   run post_register the_store
       (request_of [] [''username'' \<mapsto> JStr ''ann'', ''email'' \<mapsto> JStr ''ann@example.org'']) [ann] =
     (\<lparr>status = 400, payload = ErrorBody ''Please provide all the required parameters..''\<rparr>,
      [ann], []) \<and>
   all_three (request_of [] ann_body) \<and>
   findByEmail the_store (body (request_of [] ann_body) ''email'') [ann] = (Inr (Some ann), [ann]) \<and>
   run post_register the_store (request_of [] ann_body) [ann] =
     (\<lparr>status = 400, payload = ErrorBody ''This email has already been registered..''\<rparr>,
      [ann], [(FindByEmail (Some (JStr ''ann@example.org'')), None)]) \<and>
   records_for (Some (JStr ''ann@example.org'')) [ann] = [ann] \<and>
   findByEmail the_store (body (request_of [] ann_body) ''email'') [] = (Inr None, []) \<and>
   create the_store ann_body [] = (Inr (Some ann), [ann]) \<and>
   run post_register the_store (request_of [] ann_body) [] =
     (\<lparr>status = 201, payload = NewUserBody (Some ann)\<rparr>, [ann],
      [(FindByEmail (Some (JStr ''ann@example.org'')), None), (Create ann_body, None)]) \<and>
   records_for (Some (JStr ''ann@example.org'')) [] = [] \<and>
   (\<exists>new st'.
      run post_register the_store (request_of [] ann_body) [] =
        (\<lparr>status = 201, payload = NewUserBody (Some new)\<rparr>, st',
         [(FindByEmail (Some (JStr ''ann@example.org'')), None), (Create ann_body, None)]) \<and>
      run post_register the_store (request_of [] ann_body) st' =
        (\<lparr>status = 400, payload = ErrorBody ''This email has already been registered..''\<rparr>,
         st', [(FindByEmail (Some (JStr ''ann@example.org'')), None)]) \<and>
      records_for (Some (JStr ''ann@example.org'')) st' = [new])"
  using
    register_checks_in_order [where db = the_store
      and req = "request_of [] [''username'' \<mapsto> JStr ''ann'', ''email'' \<mapsto> JStr ''ann@example.org'']"
      and s = "[ann]" and u = ann and ?s1.0 = "[ann]" and newUser = None and ?s2.0 = "[ann]"
      and st = "[ann]" and old = ann and again = "request_of [] ann_body"]
    register_checks_in_order [where db = the_store and req = "request_of [] ann_body"
      and s = "[ann]" and u = ann and ?s1.0 = "[ann]" and newUser = None and ?s2.0 = "[ann]"
      and st = "[ann]" and old = ann and again = "request_of [] ann_body"]
    register_checks_in_order [where db = the_store and req = "request_of [] ann_body"
      and s = "[]" and u = ann and ?s1.0 = "[]" and newUser = "Some ann" and ?s2.0 = "[ann]"
      and st = "[]" and old = ann and again = "request_of [] ann_body"]
  by (simp add: all_three_def request_of_def ann_body_def ann_def the_store_def
      records_for_def db_findByEmail_def db_create_def new_id_def Let_def)

text \<open>
  C3. Login applies its checks in order. If email or password is missing (the route's test
  \<^verbatim>\<open>!field\<close>) the answer is 400 and no store operation is called. Otherwise, if
  \<open>findByEmail\<close> finds no user the answer is 404 and \<open>comparePassword\<close> is not called; if
  \<open>comparePassword\<close> returns false the answer is 400; if it returns true the answer is 200
  with the user that \<open>findByEmail\<close> returned. Login calls query operations only, so a store
  whose queries leave it as it was is left as it was, the record store among them.
\<close>

theorem login_checks_in_order:
  "(\<not> js_truthy (body req ''email'') \<or> \<not> js_truthy (body req ''password'') \<longrightarrow>
      run post_login (db :: ('s, 'u, 'e) database) req s =
        (\<lparr>status = 400, payload = ErrorBody ''Please provide all the required parameters..''\<rparr>,
         s, [])) \<and>
   (js_truthy (body req ''email'') \<and> js_truthy (body req ''password'') \<and>
    findByEmail db (body req ''email'') s = (Inr None, s1) \<longrightarrow>
      run post_login db req s =
        (\<lparr>status = 404, payload = ErrorBody ''No user exists with the email provided..''\<rparr>,
         s1, [(FindByEmail (body req ''email''), None)])) \<and>
   (js_truthy (body req ''email'') \<and> js_truthy (body req ''password'') \<and>
    findByEmail db (body req ''email'') s = (Inr (Some u), s1) \<and>
    comparePassword db (body req ''email'') (body req ''password'') s1 = (Inr False, s2) \<longrightarrow>
      run post_login db req s =
        (\<lparr>status = 400, payload = ErrorBody ''Incorrect Password!''\<rparr>, s2,
         [(FindByEmail (body req ''email''), None),
          (ComparePassword (body req ''email'') (body req ''password''), None)])) \<and>
   (js_truthy (body req ''email'') \<and> js_truthy (body req ''password'') \<and>
    findByEmail db (body req ''email'') s = (Inr (Some u), s1) \<and>
    comparePassword db (body req ''email'') (body req ''password'') s1 = (Inr True, s2) \<longrightarrow>
      run post_login db req s =
        (\<lparr>status = 200, payload = UserBody u\<rparr>, s2,
         [(FindByEmail (body req ''email''), None),
          (ComparePassword (body req ''email'') (body req ''password''), None)])) \<and>
   (\<forall>x \<in> set (snd (snd (run post_login db req s))). read_only (fst x)) \<and>
   (queries_preserve db \<longrightarrow> fst (snd (run post_login db req s)) = s) \<and>
   fst (snd (run post_login (user_database :: (store, user, 'e) database) req st)) = st"
proof -
  obtain resp s' cs where r: "run post_login db req s = (resp, s', cs)"
    by (cases "run post_login db req s") auto
  have calls: "\<forall>x \<in> set (snd (snd (run post_login db req s))). read_only (fst x)"
    using post_login_read_only [OF r] by (simp add: r)
  have frame: "queries_preserve db \<longrightarrow> fst (snd (run post_login db req s)) = s"
    using post_login_store [OF _ r] by (simp add: r)
  obtain resp0 st0 cs0 where
    r0: "run post_login (user_database :: (store, user, 'e) database) req st = (resp0, st0, cs0)"
    by (cases "run post_login (user_database :: (store, user, 'e) database) req st") auto
  have mem: "fst (snd (run post_login (user_database :: (store, user, 'e) database) req st)) = st"
    using post_login_store [OF user_database_queries r0] by (simp add: r0)
  show ?thesis
    using calls frame mem
    by (simp add: post_login_missing post_login_unknown post_login_mismatch post_login_match)
qed

theorem login_checks_in_order_witness:
  "\<not> js_truthy (body (request_of [] [''email'' \<mapsto> JStr ''ann@example.org'']) ''password'') \<and>
   run post_login the_store (request_of [] [''email'' \<mapsto> JStr ''ann@example.org'']) [ann] =
     (\<lparr>status = 400, payload = ErrorBody ''Please provide all the required parameters..''\<rparr>,
      [ann], []) \<and>
   findByEmail the_store (Some (JStr ''bob@example.org'')) [ann] = (Inr None, [ann]) \<and>
   run post_login the_store (request_of [] bob_body) [ann] =
     (\<lparr>status = 404, payload = ErrorBody ''No user exists with the email provided..''\<rparr>,
      [ann], [(FindByEmail (Some (JStr ''bob@example.org'')), None)]) \<and>
   comparePassword the_store (Some (JStr ''ann@example.org'')) (Some (JStr ''guess'')) [ann] =
     (Inr False, [ann]) \<and>
   run post_login the_store
       (request_of [] [''email'' \<mapsto> JStr ''ann@example.org'', ''password'' \<mapsto> JStr ''guess''])
       [ann] =
     (\<lparr>status = 400, payload = ErrorBody ''Incorrect Password!''\<rparr>, [ann],
      [(FindByEmail (Some (JStr ''ann@example.org'')), None),
       (ComparePassword (Some (JStr ''ann@example.org'')) (Some (JStr ''guess'')), None)]) \<and>
   comparePassword the_store (Some (JStr ''ann@example.org'')) (Some (JStr ''s3cret'')) [ann] =
     (Inr True, [ann]) \<and>
   run post_login the_store (request_of [] ann_body) [ann] =
     (\<lparr>status = 200, payload = UserBody ann\<rparr>, [ann],
      [(FindByEmail (Some (JStr ''ann@example.org'')), None),
       (ComparePassword (Some (JStr ''ann@example.org'')) (Some (JStr ''s3cret'')), None)]) \<and>
   queries_preserve the_store \<and>
   fst (snd (run post_login the_store (request_of [] ann_body) [ann])) = [ann]"
  using
    login_checks_in_order [where db = the_store
      and req = "request_of [] [''email'' \<mapsto> JStr ''ann@example.org'']"
      and s = "[ann]" and u = ann and ?s1.0 = "[ann]" and ?s2.0 = "[ann]" and st = "[ann]"]
    login_checks_in_order [where db = the_store and req = "request_of [] bob_body"
      and s = "[ann]" and u = ann and ?s1.0 = "[ann]" and ?s2.0 = "[ann]" and st = "[ann]"]
    login_checks_in_order [where db = the_store
      and req = "request_of [] [''email'' \<mapsto> JStr ''ann@example.org'', ''password'' \<mapsto> JStr ''guess'']"
      and s = "[ann]" and u = ann and ?s1.0 = "[ann]" and ?s2.0 = "[ann]" and st = "[ann]"]
    login_checks_in_order [where db = the_store and req = "request_of [] ann_body"
      and s = "[ann]" and u = ann and ?s1.0 = "[ann]" and ?s2.0 = "[ann]" and st = "[ann]"]
    user_database_queries [where ?'a = string]
  by (simp add: request_of_def ann_body_def bob_body_def ann_def the_store_def
      db_findByEmail_def db_comparePassword_def)

text \<open>
  C4. Update. The route first reads the user with \<open>findOne\<close>; when that call returns: if a
  field is missing (the route's test \<^verbatim>\<open>!field\<close>) the answer is 401 and \<open>update\<close> is not
  called; otherwise, if no user was found the answer is 404 and \<open>update\<close> is not called;
  otherwise \<open>update\<close> is called with the id and the body and the answer is 201 with what it
  returned. On the record store: a missing field or an unknown id leaves the store as it
  was, so no record is created and none is changed in part; with all fields and a known
  id the record keeps its id and has the username, email and password of the body, the
  answer carries that record, and every other record is as before.
\<close>

theorem update_checks_and_replaces:
  "(findOne (db :: ('s, 'u, 'e) database) (params_id req) s = (Inr getUser, s1) \<and>
    \<not> all_three req \<longrightarrow>
      run put_user db req s =
        (\<lparr>status = 401, payload = ErrorBody ''Please provide all the required parameters..''\<rparr>,
         s1, [(FindOne (params_id req), None)])) \<and>
   (findOne db (params_id req) s = (Inr None, s1) \<and> all_three req \<longrightarrow>
      run put_user db req s =
        (\<lparr>status = 404, payload = ErrorBody (''No user with id '' @ params_id req)\<rparr>,
         s1, [(FindOne (params_id req), None)])) \<and>
   (findOne db (params_id req) s = (Inr (Some u), s1) \<and> all_three req \<and>
    update db (params_id req) (body req) s1 = (Inr updateUser, s2) \<longrightarrow>
      run put_user db req s =
        (\<lparr>status = 201, payload = UpdateUserBody updateUser\<rparr>, s2,
         [(FindOne (params_id req), None), (Update (params_id req) (body req), None)])) \<and>
   (\<not> all_three req \<longrightarrow>
      run put_user (user_database :: (store, user, 'e) database) req st =
        (\<lparr>status = 401, payload = ErrorBody ''Please provide all the required parameters..''\<rparr>,
         st, [(FindOne (params_id req), None)])) \<and>
   (all_three req \<and> db_findOne (params_id req) st = None \<longrightarrow>
      run put_user (user_database :: (store, user, 'e) database) req st =
        (\<lparr>status = 404, payload = ErrorBody (''No user with id '' @ params_id req)\<rparr>,
         st, [(FindOne (params_id req), None)])) \<and>
   (all_three req \<and> db_findOne (params_id req) st = Some old \<longrightarrow>
      (\<exists>new st'.
         run put_user (user_database :: (store, user, 'e) database) req st =
           (\<lparr>status = 201, payload = UpdateUserBody (Some new)\<rparr>, st',
            [(FindOne (params_id req), None), (Update (params_id req) (body req), None)]) \<and>
         new = old\<lparr>username := body req ''username'', email := body req ''email'',
                     password := body req ''password''\<rparr> \<and>
         db_findOne (params_id req) st' = Some new \<and>
         length st' = length st \<and>
         filter (\<lambda>v. uid v \<noteq> params_id req) st' = filter (\<lambda>v. uid v \<noteq> params_id req) st))"
proof (intro conjI impI)
  assume "findOne db (params_id req) s = (Inr getUser, s1) \<and> \<not> all_three req"
  then show "run put_user db req s =
      (\<lparr>status = 401, payload = ErrorBody ''Please provide all the required parameters..''\<rparr>,
       s1, [(FindOne (params_id req), None)])"
    by (simp add: put_user_missing)
next
  assume "findOne db (params_id req) s = (Inr None, s1) \<and> all_three req"
  then show "run put_user db req s =
      (\<lparr>status = 404, payload = ErrorBody (''No user with id '' @ params_id req)\<rparr>,
       s1, [(FindOne (params_id req), None)])"
    by (simp add: put_user_absent)
next
  assume "findOne db (params_id req) s = (Inr (Some u), s1) \<and> all_three req \<and>
    update db (params_id req) (body req) s1 = (Inr updateUser, s2)"
  then show "run put_user db req s =
      (\<lparr>status = 201, payload = UpdateUserBody updateUser\<rparr>, s2,
       [(FindOne (params_id req), None), (Update (params_id req) (body req), None)])"
    by (simp add: put_user_updated)
next
  assume "\<not> all_three req"
  then show "run put_user (user_database :: (store, user, 'e) database) req st =
      (\<lparr>status = 401, payload = ErrorBody ''Please provide all the required parameters..''\<rparr>,
       st, [(FindOne (params_id req), None)])"
    by (simp add: put_user_missing)
next
  assume "all_three req \<and> db_findOne (params_id req) st = None"
  then show "run put_user (user_database :: (store, user, 'e) database) req st =
      (\<lparr>status = 404, payload = ErrorBody (''No user with id '' @ params_id req)\<rparr>,
       st, [(FindOne (params_id req), None)])"
    by (simp add: put_user_absent)
next
  assume a: "all_three req \<and> db_findOne (params_id req) st = Some old"
  define new where "new = old\<lparr>username := body req ''username'', email := body req ''email'',
    password := body req ''password''\<rparr>"
  define st' where "st' = snd (db_update (params_id req) (body req) st)"
  from a have f: "db_findOne (params_id req) st = Some old" by simp
  have res: "fst (db_update (params_id req) (body req) st) = Some new"
    using updated_record(1) [OF f] by (simp add: new_def)
  have "run put_user (user_database :: (store, user, 'e) database) req st =
      (\<lparr>status = 201, payload = UpdateUserBody (Some new)\<rparr>, st',
       [(FindOne (params_id req), None), (Update (params_id req) (body req), None)])"
    using a res by (simp add: put_user_updated st'_def)
  moreover have "db_findOne (params_id req) st' = Some new"
    using updated_record(2) [OF f] res by (simp add: st'_def)
  moreover have "length st' = length st"
    using updated_record(3) [OF f] by (simp add: st'_def)
  moreover have "filter (\<lambda>v. uid v \<noteq> params_id req) st' =
      filter (\<lambda>v. uid v \<noteq> params_id req) st"
    using updated_record(4) [OF f] by (simp add: st'_def)
  ultimately show "\<exists>new st'.
      run put_user (user_database :: (store, user, 'e) database) req st =
        (\<lparr>status = 201, payload = UpdateUserBody (Some new)\<rparr>, st',
         [(FindOne (params_id req), None), (Update (params_id req) (body req), None)]) \<and>
      new = old\<lparr>username := body req ''username'', email := body req ''email'',
                  password := body req ''password''\<rparr> \<and>
      db_findOne (params_id req) st' = Some new \<and>
      length st' = length st \<and>
      filter (\<lambda>v. uid v \<noteq> params_id req) st' = filter (\<lambda>v. uid v \<noteq> params_id req) st"
    using new_def by blast
qed

theorem update_checks_and_replaces_witness:
  "findOne the_store ''u'' [ann] = (Inr (Some ann), [ann]) \<and>
   \<not> all_three (request_of ''u'' [''username'' \<mapsto> JStr ''bob'']) \<and>
   run put_user the_store (request_of ''u'' [''username'' \<mapsto> JStr ''bob'']) [ann] =
     (\<lparr>status = 401, payload = ErrorBody ''Please provide all the required parameters..''\<rparr>,
      [ann], [(FindOne ''u'', None)]) \<and>
   all_three (request_of ''uu'' bob_body) \<and>
   findOne the_store ''uu'' [ann] = (Inr None, [ann]) \<and>
   run put_user the_store (request_of ''uu'' bob_body) [ann] =
     (\<lparr>status = 404, payload = ErrorBody ''No user with id uu''\<rparr>, [ann],
      [(FindOne ''uu'', None)]) \<and>
   update the_store ''u'' bob_body [ann] =
     (Inr (Some \<lparr>uid = ''u'', username = Some (JStr ''bob''),
                  email = Some (JStr ''bob@example.org''),
                  password = Some (JStr ''hunter2'')\<rparr>),
      [\<lparr>uid = ''u'', username = Some (JStr ''bob''), email = Some (JStr ''bob@example.org''),
        password = Some (JStr ''hunter2'')\<rparr>]) \<and>
   run put_user the_store (request_of ''u'' bob_body) [ann] =
     (\<lparr>status = 201,
       payload = UpdateUserBody
         (Some \<lparr>uid = ''u'', username = Some (JStr ''bob''),
                email = Some (JStr ''bob@example.org''),
                password = Some (JStr ''hunter2'')\<rparr>)\<rparr>,
      [\<lparr>uid = ''u'', username = Some (JStr ''bob''), email = Some (JStr ''bob@example.org''),
        password = Some (JStr ''hunter2'')\<rparr>],
      [(FindOne ''u'', None), (Update ''u'' bob_body, None)])"
  using
    update_checks_and_replaces [where db = the_store
      and req = "request_of ''u'' [''username'' \<mapsto> JStr ''bob'']" and s = "[ann]"
      and getUser = "Some ann" and ?s1.0 = "[ann]" and u = ann and updateUser = None
      and ?s2.0 = "[ann]" and st = "[ann]" and old = ann]
    update_checks_and_replaces [where db = the_store
      and req = "request_of ''uu'' bob_body" and s = "[ann]"
      and getUser = None and ?s1.0 = "[ann]" and u = ann and updateUser = None
      and ?s2.0 = "[ann]" and st = "[ann]" and old = ann]
    update_checks_and_replaces [where db = the_store
      and req = "request_of ''u'' bob_body" and s = "[ann]"
      and getUser = "Some ann" and ?s1.0 = "[ann]" and u = ann
      and updateUser = "Some \<lparr>uid = ''u'', username = Some (JStr ''bob''),
                  email = Some (JStr ''bob@example.org''),
                  password = Some (JStr ''hunter2'')\<rparr>"
      and ?s2.0 = "[\<lparr>uid = ''u'', username = Some (JStr ''bob''),
                  email = Some (JStr ''bob@example.org''),
                  password = Some (JStr ''hunter2'')\<rparr>]" and st = "[ann]" and old = ann]
  by (simp add: all_three_def request_of_def bob_body_def ann_def the_store_def
      db_findOne_def db_update_def Let_def)

text \<open>
  C5. Delete. If \<open>findOne\<close> finds no user the answer is 404 and \<open>remove\<close> is not called; if
  it finds one, \<open>remove\<close> is called with the id and, when it returns, the answer is 200 with
  the deletion message. On the record store, whose ids are distinct: an unknown id leaves
  the store as it was, and a known id removes exactly the record found, so the store is
  one record shorter and the id resolves no more.
\<close>

theorem delete_checks_and_removes:
  "(findOne (db :: ('s, 'u, 'e) database) (params_id req) s = (Inr None, s1) \<longrightarrow>
      run delete_user db req s =
        (\<lparr>status = 404, payload = ErrorBody ''User does not exist''\<rparr>, s1,
         [(FindOne (params_id req), None)])) \<and>
   (findOne db (params_id req) s = (Inr (Some u), s1) \<and>
    remove db (params_id req) s1 = (Inr r, s2) \<longrightarrow>
      run delete_user db req s =
        (\<lparr>status = 200, payload = MsgBody ''User deleted''\<rparr>, s2,
         [(FindOne (params_id req), None), (Remove (params_id req), None)])) \<and>
   (db_findOne (params_id req) st = None \<longrightarrow>
      run delete_user (user_database :: (store, user, 'e) database) req st =
        (\<lparr>status = 404, payload = ErrorBody ''User does not exist''\<rparr>, st,
         [(FindOne (params_id req), None)])) \<and>
   (distinct (map uid st) \<and> db_findOne (params_id req) st = Some old \<longrightarrow>
      (\<exists>st'.
         run delete_user (user_database :: (store, user, 'e) database) req st =
           (\<lparr>status = 200, payload = MsgBody ''User deleted''\<rparr>, st',
            [(FindOne (params_id req), None), (Remove (params_id req), None)]) \<and>
         Suc (length st') = length st \<and>
         set st' = set st - {old} \<and>
         db_findOne (params_id req) st' = None))"
proof (intro conjI impI)
  assume "findOne db (params_id req) s = (Inr None, s1)"
  then show "run delete_user db req s =
      (\<lparr>status = 404, payload = ErrorBody ''User does not exist''\<rparr>, s1,
       [(FindOne (params_id req), None)])"
    by (rule delete_user_absent)
next
  assume "findOne db (params_id req) s = (Inr (Some u), s1) \<and>
    remove db (params_id req) s1 = (Inr r, s2)"
  then show "run delete_user db req s =
      (\<lparr>status = 200, payload = MsgBody ''User deleted''\<rparr>, s2,
       [(FindOne (params_id req), None), (Remove (params_id req), None)])"
    by (simp add: delete_user_removed)
next
  assume "db_findOne (params_id req) st = None"
  then show "run delete_user (user_database :: (store, user, 'e) database) req st =
      (\<lparr>status = 404, payload = ErrorBody ''User does not exist''\<rparr>, st,
       [(FindOne (params_id req), None)])"
    by (simp add: delete_user_absent)
next
  assume a: "distinct (map uid st) \<and> db_findOne (params_id req) st = Some old"
  define st' where "st' = snd (db_remove (params_id req) st)"
  from a have one: "Suc (length st') = length st \<and> db_findOne (params_id req) st' = None \<and>
      set st' = set st - {old}"
    using removed_one [of st "params_id req" old] by (simp add: st'_def)
  have "run delete_user (user_database :: (store, user, 'e) database) req st =
      (\<lparr>status = 200, payload = MsgBody ''User deleted''\<rparr>, st',
       [(FindOne (params_id req), None), (Remove (params_id req), None)])"
    using a by (simp add: delete_user_removed st'_def)
  with one show "\<exists>st'.
      run delete_user (user_database :: (store, user, 'e) database) req st =
        (\<lparr>status = 200, payload = MsgBody ''User deleted''\<rparr>, st',
         [(FindOne (params_id req), None), (Remove (params_id req), None)]) \<and>
      Suc (length st') = length st \<and>
      set st' = set st - {old} \<and>
      db_findOne (params_id req) st' = None"
    by blast
qed

theorem delete_checks_and_removes_witness:
  "findOne the_store ''uu'' [ann] = (Inr None, [ann]) \<and>
   run delete_user the_store (request_of ''uu'' Map.empty) [ann] =
     (\<lparr>status = 404, payload = ErrorBody ''User does not exist''\<rparr>, [ann],
      [(FindOne ''uu'', None)]) \<and>
   distinct (map uid [ann]) \<and>
   findOne the_store ''u'' [ann] = (Inr (Some ann), [ann]) \<and>
   remove the_store ''u'' [ann] = (Inr Removed, []) \<and>
   run delete_user the_store (request_of ''u'' Map.empty) [ann] =
     (\<lparr>status = 200, payload = MsgBody ''User deleted''\<rparr>, [],
      [(FindOne ''u'', None), (Remove ''u'', None)])"
  using
    delete_checks_and_removes [where db = the_store and req = "request_of ''uu'' Map.empty"
      and s = "[ann]" and ?s1.0 = "[ann]" and u = ann and r = Removed and ?s2.0 = "[]"
      and st = "[ann]" and old = ann]
    delete_checks_and_removes [where db = the_store and req = "request_of ''u'' Map.empty"
      and s = "[ann]" and ?s1.0 = "[ann]" and u = ann and r = Removed and ?s2.0 = "[]"
      and st = "[ann]" and old = ann]
  by (simp add: request_of_def ann_def the_store_def db_findOne_def db_remove_def)

text \<open>
  C6. Every route of the router answers a value thrown by a store operation with 500 and
  that value as the payload: if a call recorded while the route ran threw \<open>e\<close>, the response
  is 500 with \<open>e\<close>, and that call is the last one the route made. The route is a total
  function to responses, so nothing but a response leaves it.
\<close>

theorem thrown_value_answered_500:
  assumes "(m, path, route) \<in> set userRouter"
    and "run route db req s = (resp, s', cs)"
    and "(c, Some e) \<in> set cs"
  shows "resp = \<lparr>status = 500, payload = CaughtBody e\<rparr> \<and> last cs = (c, Some e)"
proof -
  from assms(1) consider "route = get_users" | "route = get_user" | "route = post_register"
    | "route = post_login" | "route = put_user" | "route = delete_user"
    using userRouter_cases by blast
  then show ?thesis
  proof cases
    case 1
    with assms(2,3) show ?thesis by (simp add: get_users_caught)
  next
    case 2
    with assms(2,3) show ?thesis by (simp add: get_user_caught)
  next
    case 3
    with assms(2,3) show ?thesis by (simp add: post_register_caught)
  next
    case 4
    with assms(2,3) show ?thesis by (simp add: post_login_caught)
  next
    case 5
    with assms(2,3) show ?thesis by (simp add: put_user_caught)
  next
    case 6
    with assms(2,3) show ?thesis by (simp add: delete_user_caught)
  qed
qed

theorem thrown_value_answered_500_witness:
  "(PUT, ''/users/:id'', put_user) \<in> set userRouter \<and>
   run put_user update_throws (request_of ''u'' bob_body) [ann] =
     (\<lparr>status = 500, payload = CaughtBody ''storage error''\<rparr>, [ann],
      [(FindOne ''u'', None), (Update ''u'' bob_body, Some ''storage error'')]) \<and>
   (Update ''u'' bob_body, Some ''storage error'') \<in>
     set [(FindOne ''u'', None), (Update ''u'' bob_body, Some ''storage error'')] \<and>
   last [(FindOne ''u'', None), (Update ''u'' bob_body, Some ''storage error'')] =
     (Update ''u'' bob_body, Some ''storage error'') \<and>
   (GET, ''/users'', get_users) \<in> set userRouter \<and>
   run get_users all_throw (request_of [] Map.empty) [ann] =
     (\<lparr>status = 500, payload = CaughtBody ''storage error''\<rparr>, [ann],
      [(FindAll, Some ''storage error'')]) \<and>
   (FindAll, Some ''storage error'') \<in> set [(FindAll, Some ''storage error'')]"
proof -
  have r1: "run put_user update_throws (request_of ''u'' bob_body) [ann] =
     (\<lparr>status = 500, payload = CaughtBody ''storage error''\<rparr>, [ann],
      [(FindOne ''u'', None), (Update ''u'' bob_body, Some ''storage error'')])"
    by (simp add: run_def put_user_def block_defs update_throws_def user_database_def
        traced_def request_of_def bob_body_def ann_def db_findOne_def)
  have r2: "run get_users all_throw (request_of [] Map.empty) [ann] =
     (\<lparr>status = 500, payload = CaughtBody ''storage error''\<rparr>, [ann],
      [(FindAll, Some ''storage error'')])"
    by (simp add: run_def get_users_def block_defs all_throw_def traced_def)
  have m1: "(PUT, ''/users/:id'', put_user) \<in> set userRouter"
    by (simp add: userRouter_def)
  have m2: "(GET, ''/users'', get_users) \<in> set userRouter"
    by (simp add: userRouter_def)
  have c1: "(Update ''u'' bob_body, Some ''storage error'') \<in>
     set [(FindOne ''u'', None), (Update ''u'' bob_body, Some ''storage error'')]"
    by simp
  have c2: "(FindAll, Some ''storage error'') \<in> set [(FindAll, Some ''storage error'')]"
    by simp
  from thrown_value_answered_500 [OF m1 r1 c1] thrown_value_answered_500 [OF m2 r2 c2]
    m1 m2 r1 r2 c1 c2
  show ?thesis by blast
qed

text \<open>
  C7. The list route, the route that reads one user and the login route call query
  operations only (\<open>findAll\<close>, \<open>findOne\<close>, \<open>findByEmail\<close>, \<open>comparePassword\<close>), and leave a store
  whose queries leave it as it was exactly as it was. A route of the router that calls
  \<open>create\<close>, \<open>update\<close> or \<open>remove\<close> is the register, the update or the delete route.
\<close>

theorem queries_only_outside_mutating_routes:
  assumes "run route db req s = (resp, s', cs)"
  shows "(route = get_users \<or> route = get_user \<or> route = post_login \<longrightarrow>
            (\<forall>x \<in> set cs. read_only (fst x)) \<and> (queries_preserve db \<longrightarrow> s' = s)) \<and>
         ((m, path, route) \<in> set userRouter \<and> (\<exists>x \<in> set cs. \<not> read_only (fst x)) \<longrightarrow>
            route = post_register \<or> route = put_user \<or> route = delete_user)"
proof -
  have reads: "(\<forall>x \<in> set cs. read_only (fst x)) \<and> (queries_preserve db \<longrightarrow> s' = s)"
    if "route = get_users \<or> route = get_user \<or> route = post_login"
    using that assms
    by (auto dest: get_users_read_only get_user_read_only post_login_read_only
        get_users_store get_user_store post_login_store)
  have "route = post_register \<or> route = put_user \<or> route = delete_user"
    if "(m, path, route) \<in> set userRouter" and "\<exists>x \<in> set cs. \<not> read_only (fst x)"
    using userRouter_cases [OF that(1)] reads that(2) by blast
  with reads show ?thesis by blast
qed

theorem queries_only_outside_mutating_routes_witness:
  "run post_login the_store (request_of [] ann_body) [ann] =
     (\<lparr>status = 200, payload = UserBody ann\<rparr>, [ann],
      [(FindByEmail (Some (JStr ''ann@example.org'')), None),
       (ComparePassword (Some (JStr ''ann@example.org'')) (Some (JStr ''s3cret'')), None)]) \<and>
   queries_preserve the_store \<and>
   read_only (FindByEmail (Some (JStr ''ann@example.org''))) \<and>
   read_only (ComparePassword (Some (JStr ''ann@example.org'')) (Some (JStr ''s3cret''))) \<and>
   (DELETE, ''/users/:id'', delete_user) \<in> set userRouter \<and>
   run delete_user the_store (request_of ''u'' Map.empty) [ann] =
     (\<lparr>status = 200, payload = MsgBody ''User deleted''\<rparr>, [],
      [(FindOne ''u'', None), (Remove ''u'', None)]) \<and>
   (Remove ''u'', None) \<in> set [(FindOne ''u'', None :: string option), (Remove ''u'', None)] \<and>
   (delete_user = post_register \<or> delete_user = put_user \<or> delete_user = delete_user)"
proof -
  have r1: "run post_login the_store (request_of [] ann_body) [ann] =
     (\<lparr>status = 200, payload = UserBody ann\<rparr>, [ann],
      [(FindByEmail (Some (JStr ''ann@example.org'')), None),
       (ComparePassword (Some (JStr ''ann@example.org'')) (Some (JStr ''s3cret'')), None)])"
    by (simp add: run_def post_login_def block_defs the_store_def user_database_def traced_def
        request_of_def ann_body_def ann_def db_findByEmail_def db_comparePassword_def)
  have r2: "run delete_user the_store (request_of ''u'' Map.empty) [ann] =
     (\<lparr>status = 200, payload = MsgBody ''User deleted''\<rparr>, [],
      [(FindOne ''u'', None), (Remove ''u'', None)])"
    by (simp add: run_def delete_user_def block_defs the_store_def user_database_def traced_def
        request_of_def ann_def db_findOne_def db_remove_def)
  have q: "queries_preserve the_store"
    by (simp add: the_store_def user_database_queries)
  have m: "(DELETE, ''/users/:id'', delete_user) \<in> set userRouter"
    by (simp add: userRouter_def)
  have x: "\<exists>x \<in> set [(FindOne ''u'', None :: string option), (Remove ''u'', None)].
      \<not> read_only (fst x)"
    by simp
  from queries_only_outside_mutating_routes [OF r1, of DELETE "''/users/:id''"]
  have "read_only (FindByEmail (Some (JStr ''ann@example.org''))) \<and>
      read_only (ComparePassword (Some (JStr ''ann@example.org'')) (Some (JStr ''s3cret'')))"
    by simp
  moreover from queries_only_outside_mutating_routes [OF r2, of DELETE "''/users/:id''"] m x
  have "delete_user = post_register \<or> delete_user = put_user \<or> delete_user = delete_user"
    by blast
  ultimately show ?thesis using r1 r2 q m by simp
qed

text \<open>
  C8. Round trip on the record store. A registration with all three fields and an email
  that has no record answers 201 with a new user; reading that user by the id in the
  answer gives 200 with the same record, whose username, email and password are the
  values of the registration body.
\<close>

theorem register_then_fetch:
  assumes "all_three req" and "db_findByEmail (body req ''email'') st = None"
  shows "\<exists>new st'.
      run post_register (user_database :: (store, user, 'e) database) req st =
        (\<lparr>status = 201, payload = NewUserBody (Some new)\<rparr>, st',
         [(FindByEmail (body req ''email''), None), (Create (body req), None)]) \<and>
      run get_user (user_database :: (store, user, 'e) database)
          \<lparr>params_id = uid new, body = b\<rparr> st' =
        (\<lparr>status = 200, payload = UserBody new\<rparr>, st', [(FindOne (uid new), None)]) \<and>
      username new = body req ''username'' \<and>
      email new = body req ''email'' \<and>
      password new = body req ''password''"
proof -
  define new where "new = fst (db_create (body req) st)"
  define st' where "st' = snd (db_create (body req) st)"
  have "run post_register (user_database :: (store, user, 'e) database) req st =
      (\<lparr>status = 201, payload = NewUserBody (Some new)\<rparr>, st',
       [(FindByEmail (body req ''email''), None), (Create (body req), None)])"
    using assms by (simp add: post_register_created new_def st'_def)
  moreover have "db_findOne (uid new) st' = Some new"
    by (simp add: new_def st'_def created_is_found)
  then have "run get_user (user_database :: (store, user, 'e) database)
        \<lparr>params_id = uid new, body = b\<rparr> st' =
      (\<lparr>status = 200, payload = UserBody new\<rparr>, st', [(FindOne (uid new), None)])"
    by (simp add: get_user_found)
  moreover have "username new = body req ''username'' \<and> email new = body req ''email'' \<and>
      password new = body req ''password''"
    by (simp add: new_def created_fields)
  ultimately show ?thesis by blast
qed

theorem register_then_fetch_witness:
  "all_three (request_of [] bob_body) \<and>
   db_findByEmail (body (request_of [] bob_body) ''email'') [ann] = None \<and>
   (\<exists>new st'.
      run post_register the_store (request_of [] bob_body) [ann] =
        (\<lparr>status = 201, payload = NewUserBody (Some new)\<rparr>, st',
         [(FindByEmail (Some (JStr ''bob@example.org'')), None), (Create bob_body, None)]) \<and>
      run get_user the_store \<lparr>params_id = uid new, body = Map.empty\<rparr> st' =
        (\<lparr>status = 200, payload = UserBody new\<rparr>, st', [(FindOne (uid new), None)]) \<and>
      username new = Some (JStr ''bob'') \<and>
      email new = Some (JStr ''bob@example.org'') \<and>
      password new = Some (JStr ''hunter2''))"
proof -
  have a: "all_three (request_of [] bob_body)"
    by (simp add: all_three_def request_of_def bob_body_def)
  have f: "db_findByEmail (body (request_of [] bob_body) ''email'') [ann] = None"
    by (simp add: db_findByEmail_def request_of_def bob_body_def ann_def)
  from register_then_fetch [OF a f, where ?'e = string and b = Map.empty] a f
  show ?thesis
    by (simp add: the_store_def request_of_def bob_body_def)
qed

text \<open>
  C9. The register route hands \<^verbatim>\<open>req.body\<close> itself to \<open>create\<close>, and the update route hands
  it to \<open>update\<close>: when the checks before the call pass, the call is made with the whole
  body, and no call of \<open>create\<close> or \<open>update\<close> is ever made with anything else. So a property
  of the body beyond username, email and password is in the argument the store receives.
\<close>

theorem whole_body_reaches_store:
  "(all_three req \<and> findByEmail db (body req ''email'') s = (Inr None, s1) \<longrightarrow>
      (\<exists>x. snd (snd (run post_register db req s)) =
         [(FindByEmail (body req ''email''), None), (Create (body req), x)])) \<and>
   (all_three req \<and> findOne db (params_id req) s = (Inr (Some u), s1) \<longrightarrow>
      (\<exists>x. snd (snd (run put_user db req s)) =
         [(FindOne (params_id req), None), (Update (params_id req) (body req), x)])) \<and>
   (\<forall>b x. (Create b, x) \<in> set (snd (snd (run post_register db req s))) \<longrightarrow> b = body req) \<and>
   (\<forall>i b x. (Update i b, x) \<in> set (snd (snd (run put_user db req s))) \<longrightarrow>
      i = params_id req \<and> b = body req)"
proof (intro conjI impI allI)
  assume a: "all_three req \<and> findByEmail db (body req ''email'') s = (Inr None, s1)"
  obtain r s2 where c: "create db (body req) s1 = (r, s2)"
    by (cases "create db (body req) s1") auto
  show "\<exists>x. snd (snd (run post_register db req s)) =
      [(FindByEmail (body req ''email''), None), (Create (body req), x)]"
  proof (cases r)
    case (Inl e)
    with a c show ?thesis by (simp add: post_register_create_throws)
  next
    case (Inr newUser)
    with a c show ?thesis by (simp add: post_register_created)
  qed
next
  assume a: "all_three req \<and> findOne db (params_id req) s = (Inr (Some u), s1)"
  obtain r s2 where c: "update db (params_id req) (body req) s1 = (r, s2)"
    by (cases "update db (params_id req) (body req) s1") auto
  show "\<exists>x. snd (snd (run put_user db req s)) =
      [(FindOne (params_id req), None), (Update (params_id req) (body req), x)]"
  proof (cases r)
    case (Inl e)
    with a c show ?thesis by (simp add: put_user_update_throws)
  next
    case (Inr updateUser)
    with a c show ?thesis by (simp add: put_user_updated)
  qed
next
  fix b x
  assume m: "(Create b, x) \<in> set (snd (snd (run post_register db req s)))"
  obtain resp s' cs where r: "run post_register db req s = (resp, s', cs)"
    by (cases "run post_register db req s") auto
  with m have "(Create b, x) \<in> set cs" by simp
  from post_register_calls [OF r this] show "b = body req" by simp
next
  fix i b x
  assume m: "(Update i b, x) \<in> set (snd (snd (run put_user db req s)))"
  obtain resp s' cs where r: "run put_user db req s = (resp, s', cs)"
    by (cases "run put_user db req s") auto
  with m have "(Update i b, x) \<in> set cs" by simp
  from put_user_calls [OF r this] show "i = params_id req" and "b = body req" by simp_all
qed

theorem whole_body_reaches_store_witness:
  "all_three (request_of ''u'' bob_body) \<and>
   findByEmail the_store (body (request_of ''u'' bob_body) ''email'') [ann] = (Inr None, [ann]) \<and>
   snd (snd (run post_register the_store (request_of ''u'' bob_body) [ann])) =
     [(FindByEmail (Some (JStr ''bob@example.org'')), None), (Create bob_body, None)] \<and>
   findOne the_store (params_id (request_of ''u'' bob_body)) [ann] = (Inr (Some ann), [ann]) \<and>
   snd (snd (run put_user the_store (request_of ''u'' bob_body) [ann])) =
     [(FindOne ''u'', None), (Update ''u'' bob_body, None)] \<and>
   (Create bob_body, None) \<in>
     set (snd (snd (run post_register the_store (request_of ''u'' bob_body) [ann]))) \<and>
   (Update ''u'' bob_body, None) \<in>
     set (snd (snd (run put_user the_store (request_of ''u'' bob_body) [ann]))) \<and>
   bob_body = body (request_of ''u'' bob_body) \<and>
   bob_body ''role'' = Some (JStr ''admin'')"
proof -
  have a: "all_three (request_of ''u'' bob_body)"
    by (simp add: all_three_def request_of_def bob_body_def)
  have f: "findByEmail the_store (body (request_of ''u'' bob_body) ''email'') [ann] =
      (Inr None, [ann])"
    by (simp add: the_store_def db_findByEmail_def request_of_def bob_body_def ann_def)
  have g: "findOne the_store (params_id (request_of ''u'' bob_body)) [ann] =
      (Inr (Some ann), [ann])"
    by (simp add: the_store_def db_findOne_def request_of_def ann_def)
  have r1: "snd (snd (run post_register the_store (request_of ''u'' bob_body) [ann])) =
     [(FindByEmail (Some (JStr ''bob@example.org'')), None), (Create bob_body, None)]"
    using a f by (simp add: post_register_created the_store_def request_of_def)
      (simp add: bob_body_def)
  have r2: "snd (snd (run put_user the_store (request_of ''u'' bob_body) [ann])) =
     [(FindOne ''u'', None), (Update ''u'' bob_body, None)]"
    using a g by (simp add: put_user_updated the_store_def request_of_def)
  have role: "bob_body ''role'' = Some (JStr ''admin'')"
    by (simp add: bob_body_def)
  note w = whole_body_reaches_store [where db = the_store and req = "request_of ''u'' bob_body"
      and s = "[ann]" and ?s1.0 = "[ann]" and u = ann]
  have c: "(Create bob_body, None) \<in>
      set (snd (snd (run post_register the_store (request_of ''u'' bob_body) [ann])))"
    by (simp add: r1)
  have d: "(Update ''u'' bob_body, None) \<in>
      set (snd (snd (run put_user the_store (request_of ''u'' bob_body) [ann])))"
    by (simp add: r2)
  from w c have e: "bob_body = body (request_of ''u'' bob_body)"
    by blast
  from a f g r1 r2 role c d e show ?thesis by blast
qed

end
